theory Spec2Isabelle
  imports Complex_Main "HOL-Library.Log_Nat"
begin

section \<open>JavaScript values\<close>

text \<open>
  A JavaScript number is a double. A finite double is modelled by the rational it
  denotes (\<open>-0\<close> and \<open>0\<close> are one value), and the three non-finite numbers are
  constructors of their own. The adapter never adds or multiplies numbers; it compares
  them, tests them for truthiness and finiteness, and rounds them with \<open>toFixed\<close>.
\<close>

datatype jsnum = Num rat | NaN | PosInf | NegInf

text \<open>\<open>Number.isFinite(n)\<close>.\<close>

fun Number_isFinite :: "jsnum \<Rightarrow> bool" where
  "Number_isFinite (Num r) = True"
| "Number_isFinite NaN = False"
| "Number_isFinite PosInf = False"
| "Number_isFinite NegInf = False"

text \<open>Truthiness of a number: \<open>0\<close> and \<open>NaN\<close> are falsy.\<close>

fun truthy_num :: "jsnum \<Rightarrow> bool" where
  "truthy_num (Num r) = (r \<noteq> 0)"
| "truthy_num NaN = False"
| "truthy_num PosInf = True"
| "truthy_num NegInf = True"

text \<open>
  The Number value of a decimal numeral (a literal of the source, or the argument of
  \<open>Number\<close>): the double nearest to its mathematical value, the one with the even
  significand of two equally near, and an infinity from \<open>2^1024 - 2^970\<close> on (where
  the rounding reaches \<open>2^1024\<close>). A double is a multiple of \<open>2^q\<close>, where \<open>q\<close> is \<open>52\<close>
  below the binary exponent of the value and at least \<open>-1074\<close>.
\<close>

definition pow2 :: "int \<Rightarrow> rat" where
  "pow2 e = (if 0 \<le> e then 2 ^ nat e else 1 / 2 ^ nat (- e))"

definition round_half_even :: "rat \<Rightarrow> int" where
  "round_half_even y =
     (let f = \<lfloor>y\<rfloor>; d = y - of_int f
      in if d < 1 / 2 then f else if 1 / 2 < d then f + 1 else if even f then f else f + 1)"

text \<open>The binary exponent \<open>e\<close> of a positive rational \<open>x\<close>: \<open>2^e \<le> x < 2^(e+1)\<close>.\<close>

definition floor_log2 :: "rat \<Rightarrow> int" where
  "floor_log2 x =
     (let (a, b) = quotient_of x; e = bitlen a - bitlen b
      in if pow2 e \<le> x then e else e - 1)"

definition nearest_double :: "rat \<Rightarrow> jsnum" where
  "nearest_double x =
     (if x = 0 then Num 0
      else
        let e = floor_log2 \<bar>x\<bar>
        in if 1024 \<le> e then (if x < 0 then NegInf else PosInf)
           else
             let q = max (e - 52) (- 1074);
                 m = round_half_even (\<bar>x\<bar> / pow2 q)
             in if e = 1023 \<and> m = 2 ^ 53 then (if x < 0 then NegInf else PosInf)
                else Num (if x < 0 then - (of_int m * pow2 q) else of_int m * pow2 q))"

text \<open>
  The mathematical value of the string \<open>n.toFixed(6)\<close> for a finite \<open>n\<close> below \<open>10^21\<close>
  in magnitude: the sign, then the integer \<open>k\<close> for which \<open>k / 10^6\<close> is closest to
  \<open>|n|\<close> (the larger one of two), written with six decimals.
\<close>

definition toFixed6 :: "rat \<Rightarrow> rat" where
  "toFixed6 x =
     (if x < 0 then - (of_int \<lfloor>\<bar>x\<bar> * 10 ^ 6 + 1 / 2\<rfloor> / 10 ^ 6)
      else of_int \<lfloor>\<bar>x\<bar> * 10 ^ 6 + 1 / 2\<rfloor> / 10 ^ 6)"

text \<open>
  \<open>Number(n.toFixed(6))\<close> for a finite \<open>n\<close>: the double nearest to the decimal that
  \<open>toFixed\<close> writes. From \<open>10^21\<close> on \<open>toFixed\<close> writes the number as \<open>toString\<close>
  does, which \<open>Number\<close> reads back as \<open>n\<close>.
\<close>

definition Number_toFixed6 :: "rat \<Rightarrow> jsnum" where
  "Number_toFixed6 x = (if 10 ^ 21 \<le> \<bar>x\<bar> then Num x else nearest_double (toFixed6 x))"

text \<open>
  A value as the store's payloads and \<open>JSON.parse\<close> carry it, with \<open>undefined\<close> for
  what an object does not hold.
\<close>

datatype jsval =
    JUndefined
  | JNull
  | JBool bool
  | JNum jsnum
  | JStr string
  | JArr "jsval list"
  | JObj "(string \<times> jsval) list"

fun truthy :: "jsval \<Rightarrow> bool" where
  "truthy JUndefined = False"
| "truthy JNull = False"
| "truthy (JBool b) = b"
| "truthy (JNum n) = truthy_num n"
| "truthy (JStr s) = (s \<noteq> [])"
| "truthy (JArr xs) = True"
| "truthy (JObj kvs) = True"

text \<open>\<open>a || b\<close> on values.\<close>

definition js_or :: "jsval \<Rightarrow> jsval \<Rightarrow> jsval" where
  "js_or a b = (if truthy a then a else b)"

text \<open>\<open>n || d\<close> for an optional number \<open>n\<close>.\<close>

definition num_or :: "jsnum option \<Rightarrow> jsnum \<Rightarrow> jsnum" where
  "num_or n d = (case n of None \<Rightarrow> d | Some x \<Rightarrow> if truthy_num x then x else d)"

text \<open>Truthiness of an optional string: \<open>undefined\<close> and \<open>""\<close> are falsy.\<close>

definition truthy_str :: "string option \<Rightarrow> bool" where
  "truthy_str s = (case s of None \<Rightarrow> False | Some x \<Rightarrow> x \<noteq> [])"

text \<open>\<open>v?.k\<close>: reading a property with optional chaining.\<close>

fun prop_opt :: "jsval \<Rightarrow> string \<Rightarrow> jsval" where
  "prop_opt (JObj kvs) k = (case map_of kvs k of None \<Rightarrow> JUndefined | Some v \<Rightarrow> v)"
| "prop_opt v k = JUndefined"

datatype error =
    Error string
  | TypeError
  | RangeError
  | SyntaxError
  | TransportError string

text \<open>\<open>v.k\<close>: reading a property of \<open>undefined\<close> or \<open>null\<close> throws a TypeError.\<close>

fun get_prop :: "jsval \<Rightarrow> string \<Rightarrow> error + jsval" where
  "get_prop JUndefined k = Inl TypeError"
| "get_prop JNull k = Inl TypeError"
| "get_prop v k = Inr (prop_opt v k)"

text \<open>\<open>b.toString()\<close> of a boolean.\<close>

definition Boolean_toString :: "bool \<Rightarrow> string" where
  "Boolean_toString b = (if b then ''true'' else ''false'')"

text \<open>\<open>xs.join(sep)\<close> on strings.\<close>

fun join :: "string \<Rightarrow> string list \<Rightarrow> string" where
  "join sep [] = []"
| "join sep [x] = x"
| "join sep (x # y # ys) = x @ sep @ join sep (y # ys)"

text \<open>\<open>xs.map(f)\<close> with a callback that may throw: the first throw ends the call.\<close>

fun map_err :: "('a \<Rightarrow> error + 'b) \<Rightarrow> 'a list \<Rightarrow> error + 'b list" where
  "map_err f [] = Inr []"
| "map_err f (x # xs) =
     (case f x of
        Inl e \<Rightarrow> Inl e
      | Inr y \<Rightarrow> (case map_err f xs of Inl e \<Rightarrow> Inl e | Inr ys \<Rightarrow> Inr (y # ys)))"

section \<open>Regular expressions and the content normalizer\<close>






type_synonym captures = "nat \<rightharpoonup> string"









text \<open>A replacement string: text and group references \<open>$i\<close>.\<close>

datatype piece = Txt string | Ref nat

fun subst :: "piece list \<Rightarrow> captures \<Rightarrow> string" where
  "subst [] caps = []"
| "subst (Txt t # ps) caps = t @ subst ps caps"
| "subst (Ref i # ps) caps = (case caps i of None \<Rightarrow> [] | Some v \<Rightarrow> v) @ subst ps caps"




subsection \<open>The character classes of preprocess\<close>










subsection \<open>The expressions of preprocess, in the order of lines 52 to 65\<close>
















subsection \<open>Plain text\<close>






section \<open>The vector store's client\<close>

text \<open>A filter condition: \<open>{key, match: {value}}\<close> or \<open>{range: {key, gte, lte}}\<close>.\<close>

datatype condition =
    Match string jsval
  | InRange string "jsnum option" "jsnum option"

record filter =
  must :: "condition list"

record search_request =
  sr_vector :: "jsnum list"
  sr_limit :: "jsnum option"
  sr_score_threshold :: "jsnum option"
  sr_filter :: "filter option"
  sr_with_payload :: "bool option"
  sr_with_vector :: "bool option"

record scroll_request =
  sc_limit :: jsnum
  sc_filter :: filter
  sc_with_payload :: bool
  sc_with_vector :: bool

text \<open>A point as \<open>upsert\<close> writes it.\<close>

record point_struct =
  pt_id :: string
  pt_vector :: "jsnum list"
  pt_payload :: "(string \<times> jsval) list"

text \<open>The identifier of a stored point: a string or a number.\<close>

datatype point_id = IdStr string | IdNum jsnum

text \<open>
  A point as the store returns it: the payload is an object, \<open>null\<close> or \<open>undefined\<close>;
  the vector and the score may be absent.
\<close>

record stored_point =
  sp_id :: point_id
  sp_payload :: jsval
  sp_vector :: "jsnum list option"
  sp_score :: "jsnum option"

datatype remote_call =
    Upsert string bool "point_struct list"
  | Retrieve string "string list"
  | Search string search_request
  | Scroll string scroll_request

text \<open>
  The client is outside the adapter: what it answers is a parameter. An answer is a
  result or the error the client throws, which the adapter never catches.
\<close>

record qdrant_client =
  db_upsert :: "string \<Rightarrow> bool \<Rightarrow> point_struct list \<Rightarrow> error + unit"
  db_retrieve :: "string \<Rightarrow> string list \<Rightarrow> error + stored_point list"
  db_search :: "string \<Rightarrow> search_request \<Rightarrow> error + stored_point list"
  db_scroll :: "string \<Rightarrow> scroll_request \<Rightarrow> error + stored_point list option"

section \<open>The adapter\<close>

text \<open>
  The fields of \<open>QdrantDatabaseAdapter\<close>, and \<open>issued\<close>: the calls made through
  \<open>this.db\<close> so far, oldest first.
\<close>

record adapter =
  db :: qdrant_client
  collectionName :: string
  qdrantV5UUIDNamespace :: string
  cacheM :: "string \<rightharpoonup> string"
  vectorSize :: jsnum
  issued :: "remote_call list"

subsection \<open>Domain records\<close>

text \<open>
  \<open>RAGKnowledgeItem\<close> as \<open>createKnowledge\<close> receives it: \<open>content.metadata\<close> is an
  object or \<open>undefined\<close>, the embedding a \<open>Float32Array\<close>.
\<close>

record rag_knowledge_item =
  k_id :: string
  k_agentId :: string
  k_text :: string
  k_metadata :: jsval
  k_embedding :: "jsnum list option"
  k_createdAt :: "jsnum option"

text \<open>
  The object \<open>getKnowledge\<close> and \<open>searchKnowledge\<close> build for a row. The casts of the
  source check nothing, so a field read from the payload is whatever value is there.
\<close>

record knowledge_result =
  kr_id :: string
  kr_agentId :: jsval
  kr_text :: string
  kr_metadata :: jsval
  kr_embedding :: "jsnum list option"
  kr_createdAt :: jsval
  kr_similarity :: "jsnum option"

text \<open>\<open>Memory\<close> as \<open>createMemory\<close> receives it.\<close>

record memory =
  m_id :: "string option"
  m_userId :: string
  m_agentId :: string
  m_roomId :: string
  m_content :: jsval
  m_embedding :: "jsnum list option"
  m_unique :: "bool option"
  m_createdAt :: "jsnum option"

text \<open>The object the listing and the searches build for a point.\<close>

record memory_result =
  mr_id :: jsval
  mr_type :: jsval
  mr_content :: jsval
  mr_embedding :: "jsnum list"
  mr_userId :: jsval
  mr_roomId :: jsval
  mr_agentId :: jsval
  mr_unique :: jsval
  mr_createdAt :: jsval
  mr_similarity :: "jsnum option"

text \<open>
  What the platform and the libraries give: \<open>Number.prototype.toString\<close>,
  \<open>Math.fround\<close> (the conversion a \<open>Float32Array\<close> applies to each element),
  \<open>uuid.v5\<close>, \<open>String\<close> on a value that is not a string, \<open>JSON.stringify\<close> on one
  result object, and \<open>JSON.parse\<close>.
\<close>

record platform =
  numToString :: "jsnum \<Rightarrow> string"
  fround :: "jsnum \<Rightarrow> jsnum"
  v5 :: "string \<Rightarrow> string \<Rightarrow> string"
  valToString :: "jsval \<Rightarrow> string"
  JSON_stringify_item :: "knowledge_result \<Rightarrow> string"
  JSON_parse :: "string \<Rightarrow> error + jsval"

definition this_upsert ::
  "adapter \<Rightarrow> bool \<Rightarrow> point_struct list \<Rightarrow> (error + unit) \<times> adapter" where
  "this_upsert this w pts =
     (db_upsert (db this) (collectionName this) w pts,
      this\<lparr>issued := issued this @ [Upsert (collectionName this) w pts]\<rparr>)"

definition this_retrieve ::
  "adapter \<Rightarrow> string list \<Rightarrow> (error + stored_point list) \<times> adapter" where
  "this_retrieve this ids =
     (db_retrieve (db this) (collectionName this) ids,
      this\<lparr>issued := issued this @ [Retrieve (collectionName this) ids]\<rparr>)"

definition this_search ::
  "adapter \<Rightarrow> search_request \<Rightarrow> (error + stored_point list) \<times> adapter" where
  "this_search this req =
     (db_search (db this) (collectionName this) req,
      this\<lparr>issued := issued this @ [Search (collectionName this) req]\<rparr>)"

definition this_scroll ::
  "adapter \<Rightarrow> scroll_request \<Rightarrow> (error + stored_point list option) \<times> adapter" where
  "this_scroll this req =
     (db_scroll (db this) (collectionName this) req,
      this\<lparr>issued := issued this @ [Scroll (collectionName this) req]\<rparr>)"

subsection \<open>The cache\<close>

definition buildKey :: "string \<Rightarrow> string \<Rightarrow> string" where
  "buildKey agentId key = agentId @ '':'' @ key"

definition getCache :: "adapter \<Rightarrow> string \<Rightarrow> string \<Rightarrow> string option" where
  "getCache this key agentId = cacheM this (buildKey agentId key)"

definition setCache :: "adapter \<Rightarrow> string \<Rightarrow> string \<Rightarrow> string \<Rightarrow> bool \<times> adapter" where
  "setCache this key agentId v =
     (True, this\<lparr>cacheM := (cacheM this)(buildKey agentId key \<mapsto> v)\<rparr>)"

definition deleteCache :: "adapter \<Rightarrow> string \<Rightarrow> string \<Rightarrow> bool \<times> adapter" where
  "deleteCache this key agentId =
     (cacheM this (buildKey agentId key) \<noteq> None,
      this\<lparr>cacheM := (cacheM this)(buildKey agentId key := None)\<rparr>)"

definition buildQdrantID :: "platform \<Rightarrow> adapter \<Rightarrow> string \<Rightarrow> string" where
  "buildQdrantID pf this ident = v5 pf ident (qdrantV5UUIDNamespace this)"

subsection \<open>Knowledge\<close>

definition createKnowledge ::
  "platform \<Rightarrow> jsnum \<Rightarrow> adapter \<Rightarrow> rag_knowledge_item \<Rightarrow> (error + unit) \<times> adapter" where
  \<comment> \<open>\<open>now\<close> is what \<open>Date.now()\<close> returns.\<close>
  "createKnowledge pf now this knowledge =
     (let metadata = js_or (k_metadata knowledge) (JObj [])
      in this_upsert this True
           [\<lparr>pt_id = buildQdrantID pf this (k_id knowledge),
             pt_vector = (case k_embedding knowledge of Some e \<Rightarrow> e | None \<Rightarrow> []),
             pt_payload =
               [(''agentId'',
                   if truthy (prop_opt metadata ''isShared'') then JNull
                   else JStr (k_agentId knowledge)),
                (''content'', JObj [(''text'', JStr (k_text knowledge)), (''metadata'', metadata)]),
                (''createdAt'', JNum (num_or (k_createdAt knowledge) now)),
                (''isMain'', js_or (prop_opt metadata ''isMain'') (JBool False)),
                (''originalId'', js_or (prop_opt metadata ''originalId'') JNull),
                (''chunkIndex'', js_or (prop_opt metadata ''chunkIndex'') JNull),
                (''isShared'', js_or (prop_opt metadata ''isShared'') (JBool False))]\<rparr>])"

text \<open>\<open>row.id.toString()\<close> and \<open>String(v)\<close>.\<close>

definition id_toString :: "platform \<Rightarrow> point_id \<Rightarrow> string" where
  "id_toString pf i = (case i of IdStr s \<Rightarrow> s | IdNum n \<Rightarrow> numToString pf n)"

definition js_String :: "platform \<Rightarrow> jsval \<Rightarrow> string" where
  "js_String pf v = (case v of JStr s \<Rightarrow> s | _ \<Rightarrow> valToString pf v)"

text \<open>The callback of \<open>rows.map\<close> in \<open>getKnowledge\<close>.\<close>

definition getKnowledge_row :: "platform \<Rightarrow> stored_point \<Rightarrow> knowledge_result" where
  "getKnowledge_row pf row =
     \<lparr>kr_id = id_toString pf (sp_id row),
      kr_agentId = js_or (prop_opt (sp_payload row) ''agentId'') (JStr []),
      kr_text = js_String pf (js_or (prop_opt (sp_payload row) ''description'') (JStr [])),
      kr_metadata = sp_payload row,
      kr_embedding = (case sp_vector row of Some v \<Rightarrow> Some (map (fround pf) v) | None \<Rightarrow> None),
      kr_createdAt = prop_opt (sp_payload row) ''createdAt'',
      kr_similarity = None\<rparr>"

text \<open>A written point as the store returns it when it is read back with payload and vector.\<close>

definition as_stored :: "point_struct \<Rightarrow> stored_point" where
  "as_stored p =
     \<lparr>sp_id = IdStr (pt_id p), sp_payload = JObj (pt_payload p),
      sp_vector = Some (pt_vector p), sp_score = None\<rparr>"

record getKnowledge_params =
  gk_query :: "string option"
  gk_id :: "string option"
  gk_conversationContext :: "string option"
  gk_limit :: "jsnum option"
  gk_agentId :: "string option"

definition getKnowledge ::
  "platform \<Rightarrow> adapter \<Rightarrow> getKnowledge_params \<Rightarrow> (error + knowledge_result list) \<times> adapter" where
  "getKnowledge pf this params =
     (case this_retrieve this
             (case gk_id params of None \<Rightarrow> [] | Some i \<Rightarrow> if i \<noteq> [] then [i] else []) of
        (Inl e, this') \<Rightarrow> (Inl e, this')
      | (Inr rows, this') \<Rightarrow> (Inr (map (getKnowledge_row pf) rows), this'))"

record searchKnowledge_params =
  sk_agentId :: string
  sk_embedding :: "jsnum list"
  sk_match_threshold :: "jsnum option"
  sk_match_count :: "jsnum option"
  sk_searchText :: "string option"

text \<open>The callback of \<open>rows.map\<close> in \<open>searchKnowledge\<close>.\<close>

definition searchKnowledge_row :: "platform \<Rightarrow> stored_point \<Rightarrow> knowledge_result" where
  "searchKnowledge_row pf row =
     \<lparr>kr_id = id_toString pf (sp_id row),
      kr_agentId = js_or (prop_opt (sp_payload row) ''agentId'') (JStr []),
      kr_text = js_String pf (js_or (prop_opt (sp_payload row) ''description'') (JStr [])),
      kr_metadata = sp_payload row,
      kr_embedding = (case sp_vector row of Some v \<Rightarrow> Some (map (fround pf) v) | None \<Rightarrow> None),
      kr_createdAt = prop_opt (sp_payload row) ''createdAt'',
      kr_similarity = Some (num_or (sp_score row) (Num 0))\<rparr>"

text \<open>\<open>JSON.stringify\<close> of an array of result objects.\<close>

definition JSON_stringify :: "platform \<Rightarrow> knowledge_result list \<Rightarrow> string" where
  "JSON_stringify pf results = ''['' @ join '','' (map (JSON_stringify_item pf) results) @ '']''"

text \<open>
  \<open>searchKnowledge\<close> returns the freshly mapped rows, or what \<open>JSON.parse\<close> makes of
  the cached string.
\<close>

datatype knowledge_answer = Rows "knowledge_result list" | Parsed jsval

definition searchKnowledge ::
  "platform \<Rightarrow> adapter \<Rightarrow> searchKnowledge_params \<Rightarrow> (error + knowledge_answer) \<times> adapter" where
  "searchKnowledge pf this params =
     (let cacheKey =
            sk_agentId params @ '':'' @ join '','' (map (numToString pf) (sk_embedding params));
          cachedResult = getCache this cacheKey (sk_agentId params)
      in if truthy_str cachedResult then
           (case JSON_parse pf (case cachedResult of Some c \<Rightarrow> c | None \<Rightarrow> []) of
              Inl e \<Rightarrow> (Inl e, this)
            | Inr v \<Rightarrow> (Inr (Parsed v), this))
         else
           (case this_search this
                   \<lparr>sr_vector = sk_embedding params, sr_limit = None,
                    sr_score_threshold = None, sr_filter = None,
                    sr_with_payload = None, sr_with_vector = Some True\<rparr> of
              (Inl e, this') \<Rightarrow> (Inl e, this')
            | (Inr rows, this') \<Rightarrow>
                (let results = map (searchKnowledge_row pf) rows;
                     (ok, this'') =
                       setCache this' cacheKey (sk_agentId params) (JSON_stringify pf results)
                 in (Inr (Rows results), this''))))"

subsection \<open>Memories\<close>

text \<open>A string parameter as a value: \<open>undefined\<close> when it is missing.\<close>

definition str_val :: "string option \<Rightarrow> jsval" where
  "str_val s = (case s of None \<Rightarrow> JUndefined | Some x \<Rightarrow> JStr x)"

definition truthy_numo :: "jsnum option \<Rightarrow> bool" where
  "truthy_numo n = (case n of None \<Rightarrow> False | Some x \<Rightarrow> truthy_num x)"

text \<open>
  The callback of \<open>map\<close> in \<open>getMemories\<close>: the first read, \<open>point.payload.id\<close>, throws
  when the point has no payload.
\<close>

definition getMemories_point :: "stored_point \<Rightarrow> error + memory_result" where
  "getMemories_point point =
     (case get_prop (sp_payload point) ''id'' of
        Inl e \<Rightarrow> Inl e
      | Inr i \<Rightarrow>
          Inr \<lparr>mr_id = i,
               mr_type = prop_opt (sp_payload point) ''type'',
               mr_content = prop_opt (sp_payload point) ''content'',
               mr_embedding = (case sp_vector point of Some v \<Rightarrow> v | None \<Rightarrow> []),
               mr_userId = prop_opt (sp_payload point) ''userId'',
               mr_roomId = prop_opt (sp_payload point) ''roomId'',
               mr_agentId = prop_opt (sp_payload point) ''agentId'',
               mr_unique = prop_opt (sp_payload point) ''unique'',
               mr_createdAt = prop_opt (sp_payload point) ''createdAt'',
               mr_similarity = None\<rparr>)"

text \<open>The object of that callback, for a point whose payload is an object.\<close>

definition memory_of_payload :: "stored_point \<Rightarrow> memory_result" where
  "memory_of_payload point =
     \<lparr>mr_id = prop_opt (sp_payload point) ''id'',
      mr_type = prop_opt (sp_payload point) ''type'',
      mr_content = prop_opt (sp_payload point) ''content'',
      mr_embedding = (case sp_vector point of Some v \<Rightarrow> v | None \<Rightarrow> []),
      mr_userId = prop_opt (sp_payload point) ''userId'',
      mr_roomId = prop_opt (sp_payload point) ''roomId'',
      mr_agentId = prop_opt (sp_payload point) ''agentId'',
      mr_unique = prop_opt (sp_payload point) ''unique'',
      mr_createdAt = prop_opt (sp_payload point) ''createdAt'',
      mr_similarity = None\<rparr>"

record getMemories_params =
  gm_roomId :: "string option"
  gm_count :: "jsnum option"
  gm_unique :: "bool option"
  gm_tableName :: "string option"
  gm_agentId :: "string option"
  gm_start :: "jsnum option"
  gm_end :: "jsnum option"

text \<open>The filter \<open>getMemories\<close> builds, lines 335 to 358.\<close>

definition getMemories_filter :: "getMemories_params \<Rightarrow> filter" where
  "getMemories_filter params =
     \<lparr>must =
        [Match ''type'' (str_val (gm_tableName params)),
         Match ''roomId'' (str_val (gm_roomId params))]
        @ (case gm_unique params of
             Some u \<Rightarrow> if u then [Match ''unique'' (JStr (Boolean_toString u))] else []
           | None \<Rightarrow> [])
        @ (if truthy_str (gm_agentId params)
           then [Match ''agentId'' (str_val (gm_agentId params))] else [])
        @ (if truthy_numo (gm_start params) \<or> truthy_numo (gm_end params)
           then [InRange ''createdAt''
                   (if truthy_numo (gm_start params) then gm_start params else None)
                   (if truthy_numo (gm_end params) then gm_end params else None)]
           else [])\<rparr>"

definition getMemories ::
  "adapter \<Rightarrow> getMemories_params \<Rightarrow> (error + memory_result list) \<times> adapter" where
  "getMemories this params =
     (if \<not> truthy_str (gm_tableName params) then (Inl (Error ''tableName is required''), this)
      else if \<not> truthy_str (gm_roomId params) then (Inl (Error ''roomId is required''), this)
      else
        (case this_scroll this
                \<lparr>sc_limit = num_or (gm_count params) (Num 100),
                 sc_filter = getMemories_filter params,
                 sc_with_payload = True, sc_with_vector = True\<rparr> of
           (Inl e, this') \<Rightarrow> (Inl e, this')
         | (Inr points, this') \<Rightarrow>
             (map_err getMemories_point (case points of Some ps \<Rightarrow> ps | None \<Rightarrow> []), this')))"

record searchMemories_params =
  sm_tableName :: string
  sm_agentId :: string
  sm_roomId :: string
  sm_embedding :: "jsnum list"
  sm_match_threshold :: jsnum
  sm_match_count :: jsnum
  sm_unique :: bool

definition searchMemories_filter :: "searchMemories_params \<Rightarrow> filter" where
  "searchMemories_filter params =
     \<lparr>must =
        [Match ''type'' (JStr (sm_tableName params)),
         Match ''roomId'' (JStr (sm_roomId params)),
         Match ''agentId'' (JStr (sm_agentId params))]
        @ (if sm_unique params
           then [Match ''unique'' (JStr (Boolean_toString (sm_unique params)))] else [])\<rparr>"

definition searchMemories_result :: "stored_point \<Rightarrow> error + memory_result" where
  "searchMemories_result result =
     (case get_prop (sp_payload result) ''id'' of
        Inl e \<Rightarrow> Inl e
      | Inr i \<Rightarrow>
          Inr \<lparr>mr_id = i,
               mr_type = prop_opt (sp_payload result) ''type'',
               mr_content = prop_opt (sp_payload result) ''content'',
               mr_embedding = (case sp_vector result of Some v \<Rightarrow> v | None \<Rightarrow> []),
               mr_userId = prop_opt (sp_payload result) ''userId'',
               mr_roomId = prop_opt (sp_payload result) ''roomId'',
               mr_agentId = prop_opt (sp_payload result) ''agentId'',
               mr_unique = prop_opt (sp_payload result) ''unique'',
               mr_createdAt = prop_opt (sp_payload result) ''createdAt'',
               mr_similarity = sp_score result\<rparr>)"

definition searchMemories ::
  "adapter \<Rightarrow> searchMemories_params \<Rightarrow> (error + memory_result list) \<times> adapter" where
  "searchMemories this params =
     (case this_search this
             \<lparr>sr_vector = sm_embedding params,
              sr_limit = Some (sm_match_count params),
              sr_score_threshold = Some (sm_match_threshold params),
              sr_filter = Some (searchMemories_filter params),
              sr_with_payload = Some True, sr_with_vector = Some True\<rparr> of
        (Inl e, this') \<Rightarrow> (Inl e, this')
      | (Inr searchResults, this') \<Rightarrow> (map_err searchMemories_result searchResults, this'))"

record searchMemoriesByEmbedding_params =
  se_match_threshold :: "jsnum option"
  se_count :: "jsnum option"
  se_roomId :: "string option"
  se_agentId :: "string option"
  se_unique :: "bool option"
  se_tableName :: string

text \<open>The cleaning of the query vector, lines 530 to 533.\<close>

definition cleanVector :: "jsnum list \<Rightarrow> jsnum list" where
  "cleanVector embedding =
     map (\<lambda>n. if \<not> Number_isFinite n then Num 0
              else (case n of Num x \<Rightarrow> Number_toFixed6 x | _ \<Rightarrow> n)) embedding"

definition searchMemoriesByEmbedding_filter :: "searchMemoriesByEmbedding_params \<Rightarrow> filter" where
  "searchMemoriesByEmbedding_filter params =
     \<lparr>must =
        [Match ''type'' (JStr (se_tableName params))]
        @ (case se_unique params of
             Some u \<Rightarrow> if u then [Match ''unique'' (JStr (Boolean_toString u))] else []
           | None \<Rightarrow> [])
        @ (if truthy_str (se_agentId params)
           then [Match ''agentId'' (str_val (se_agentId params))] else [])
        @ (if truthy_str (se_roomId params)
           then [Match ''roomId'' (str_val (se_roomId params))] else [])\<rparr>"

definition searchMemoriesByEmbedding_result :: "stored_point \<Rightarrow> error + memory_result" where
  "searchMemoriesByEmbedding_result result =
     (case get_prop (sp_payload result) ''id'' of
        Inl e \<Rightarrow> Inl e
      | Inr i \<Rightarrow>
          Inr \<lparr>mr_id = i,
               mr_type = prop_opt (sp_payload result) ''type'',
               mr_content = prop_opt (sp_payload result) ''content'',
               mr_embedding = (case sp_vector result of Some v \<Rightarrow> v | None \<Rightarrow> []),
               mr_userId = prop_opt (sp_payload result) ''userId'',
               mr_roomId = prop_opt (sp_payload result) ''roomId'',
               mr_agentId = prop_opt (sp_payload result) ''agentId'',
               mr_unique = prop_opt (sp_payload result) ''unique'',
               mr_createdAt = prop_opt (sp_payload result) ''createdAt'',
               mr_similarity = Some (num_or (sp_score result) (Num 0))\<rparr>)"

text \<open>The message of the dimension guard, line 525.\<close>

definition dimension_message :: "platform \<Rightarrow> jsnum \<Rightarrow> nat \<Rightarrow> string" where
  "dimension_message pf expected got =
     ''Invalid embedding dimension: expected '' @ numToString pf expected
       @ '', got '' @ numToString pf (Num (of_nat got))"

definition searchMemoriesByEmbedding ::
  "platform \<Rightarrow> adapter \<Rightarrow> jsnum list \<Rightarrow> searchMemoriesByEmbedding_params
     \<Rightarrow> (error + memory_result list) \<times> adapter" where
  "searchMemoriesByEmbedding pf this embedding params =
     (if Num (of_nat (length embedding)) \<noteq> vectorSize this
      then (Inl (Error (dimension_message pf (vectorSize this) (length embedding))), this)
      else
        (case this_search this
                \<lparr>sr_vector = cleanVector embedding,
                 sr_limit = Some (num_or (se_count params) (Num 10)),
                 sr_score_threshold = Some (num_or (se_match_threshold params) (Num 0)),
                 sr_filter = Some (searchMemoriesByEmbedding_filter params),
                 sr_with_payload = Some True, sr_with_vector = Some True\<rparr> of
           (Inl e, this') \<Rightarrow> (Inl e, this')
         | (Inr searchResults, this') \<Rightarrow>
             (map_err searchMemoriesByEmbedding_result searchResults, this')))"

text \<open>\<open>new Array(n).fill(0)\<close>: a RangeError unless \<open>n\<close> is an array length.\<close>

definition new_Array_fill0 :: "jsnum \<Rightarrow> error + jsnum list" where
  "new_Array_fill0 n =
     (case n of
        Num r \<Rightarrow>
          if of_int \<lfloor>r\<rfloor> = r \<and> 0 \<le> r \<and> r < 2 ^ 32
          then Inr (replicate (nat \<lfloor>r\<rfloor>) (Num 0)) else Inl RangeError
      | _ \<Rightarrow> Inl RangeError)"

text \<open>The literal \<open>0.95\<close> of line 252.\<close>

definition literal_0_95 :: jsnum where
  "literal_0_95 = nearest_double (95 / 100)"

definition createMemory ::
  "platform \<Rightarrow> jsnum \<Rightarrow> string \<Rightarrow> adapter \<Rightarrow> memory \<Rightarrow> string \<Rightarrow> bool option
     \<Rightarrow> (error + unit) \<times> adapter" where
  \<comment> \<open>\<open>now\<close> is what \<open>Date.now()\<close> returns and \<open>fresh\<close> what \<open>v4()\<close> returns.\<close>
  "createMemory pf now fresh this memory tableName unique =
     (case (case m_embedding memory of
              None \<Rightarrow> (Inr (case unique of Some u \<Rightarrow> u | None \<Rightarrow> True), this)
            | Some embedding \<Rightarrow>
                (case searchMemoriesByEmbedding pf this embedding
                        \<lparr>se_match_threshold = Some (literal_0_95),
                         se_count = Some (Num 1),
                         se_roomId = Some (m_roomId memory), se_agentId = None,
                         se_unique = None, se_tableName = tableName\<rparr> of
                   (Inl e, this') \<Rightarrow> (Inl e, this')
                 | (Inr similarMemories, this') \<Rightarrow> (Inr (length similarMemories = 0), this'))) of
        (Inl e, this') \<Rightarrow> (Inl e, this')
      | (Inr isUnique, this') \<Rightarrow>
          (case (case m_embedding memory of
                   Some embedding \<Rightarrow> Inr embedding
                 | None \<Rightarrow> new_Array_fill0 (vectorSize this')) of
             Inl e \<Rightarrow> (Inl e, this')
           | Inr vector \<Rightarrow>
               this_upsert this' True
                 [\<lparr>pt_id =
                      buildQdrantID pf this'
                        (if truthy_str (m_id memory)
                         then (case m_id memory of Some i \<Rightarrow> i | None \<Rightarrow> fresh) else fresh),
                    pt_vector = vector,
                    pt_payload =
                      [(''id'', str_val (m_id memory)),
                       (''type'', JStr tableName),
                       (''content'', m_content memory),
                       (''userId'', JStr (m_userId memory)),
                       (''roomId'', JStr (m_roomId memory)),
                       (''agentId'', JStr (m_agentId memory)),
                       (''unique'', JBool (case m_unique memory of Some u \<Rightarrow> u | None \<Rightarrow> isUnique)),
                       (''createdAt'', JNum now)]\<rparr>]))"

section \<open>Concrete inputs\<close>

text \<open>
  A client whose searches find nothing and whose listing returns one point, stand-ins for
  the platform's functions, and an adapter as the constructor leaves it, with
  \<open>vectorSize = 3\<close>.
\<close>

definition example_point :: stored_point where
  "example_point =
     \<lparr>sp_id = IdStr ''<v5 m1>'',
      sp_payload =
        JObj [(''id'', JStr ''m1''), (''type'', JStr ''facts''),
              (''content'', JObj [(''text'', JStr ''hello'')]),
              (''userId'', JStr ''u1''), (''roomId'', JStr ''r1''), (''agentId'', JStr ''a1''),
              (''unique'', JBool True), (''createdAt'', JNum (Num 150))],
      sp_vector = Some [Num 1, Num 2, Num 3],
      sp_score = None\<rparr>"

definition example_client :: qdrant_client where
  "example_client =
     \<lparr>db_upsert = (\<lambda>c w pts. Inr ()),
      db_retrieve = (\<lambda>c ids. Inr []),
      db_search = (\<lambda>c req. Inr []),
      db_scroll = (\<lambda>c req. Inr (Some [example_point]))\<rparr>"

definition example_platform :: platform where
  "example_platform =
     \<lparr>numToString = (\<lambda>n. ''<number>''),
      fround = (\<lambda>n. n),
      v5 = (\<lambda>name ns. ''<v5 '' @ name @ ''>''),
      valToString = (\<lambda>v. ''<value>''),
      JSON_stringify_item = (\<lambda>r. ''{}''),
      JSON_parse = (\<lambda>s. Inr (JStr s))\<rparr>"

definition example_adapter :: adapter where
  "example_adapter =
     \<lparr>db = example_client,
      collectionName = ''collection'',
      qdrantV5UUIDNamespace = ''00000000-0000-0000-0000-000000000000'',
      cacheM = Map.empty,
      vectorSize = Num 3,
      issued = []\<rparr>"

definition example_query :: searchKnowledge_params where
  "example_query =
     \<lparr>sk_agentId = ''a1'', sk_embedding = [Num 1, Num 2, Num 3], sk_match_threshold = None,
      sk_match_count = None, sk_searchText = None\<rparr>"

definition example_search_params :: searchMemoriesByEmbedding_params where
  "example_search_params =
     \<lparr>se_match_threshold = None, se_count = None, se_roomId = Some ''r1'',
      se_agentId = None, se_unique = None, se_tableName = ''facts''\<rparr>"

definition example_listing :: getMemories_params where
  "example_listing =
     \<lparr>gm_roomId = Some ''r1'', gm_count = None, gm_unique = Some True,
      gm_tableName = Some ''facts'', gm_agentId = None,
      gm_start = Some (Num 100), gm_end = Some (Num 200)\<rparr>"

definition example_memory :: memory where
  "example_memory =
     \<lparr>m_id = Some ''m1'', m_userId = ''u1'', m_agentId = ''a1'', m_roomId = ''r1'',
      m_content = JObj [(''text'', JStr ''hello'')],
      m_embedding = Some [Num 1, Num 2, Num 3],
      m_unique = None, m_createdAt = None\<rparr>"

definition example_dedup_search :: remote_call where
  "example_dedup_search =
     Search ''collection''
       \<lparr>sr_vector = [Num 1, Num 2, Num 3], sr_limit = Some (Num 1),
        sr_score_threshold = Some (literal_0_95),
        sr_filter = Some \<lparr>must = [Match ''type'' (JStr ''facts''),
                                 Match ''roomId'' (JStr ''r1'')]\<rparr>,
        sr_with_payload = Some True, sr_with_vector = Some True\<rparr>"

definition example_written_point :: point_struct where
  "example_written_point =
     \<lparr>pt_id = ''<v5 m1>'',
      pt_vector = [Num 1, Num 2, Num 3],
      pt_payload =
        [(''id'', JStr ''m1''), (''type'', JStr ''facts''),
         (''content'', JObj [(''text'', JStr ''hello'')]),
         (''userId'', JStr ''u1''), (''roomId'', JStr ''r1''), (''agentId'', JStr ''a1''),
         (''unique'', JBool True), (''createdAt'', JNum (Num 1700000000000))]\<rparr>"

definition example_knowledge :: rag_knowledge_item where
  "example_knowledge =
     \<lparr>k_id = ''k1'', k_agentId = ''a1'', k_text = ''hello'',
      k_metadata = JObj [(''isShared'', JBool True)],
      k_embedding = Some [Num 1, Num 2, Num 3],
      k_createdAt = Some (Num 1000)\<rparr>"

definition example_knowledge_point :: point_struct where
  "example_knowledge_point =
     \<lparr>pt_id = ''<v5 k1>'',
      pt_vector = [Num 1, Num 2, Num 3],
      pt_payload =
        [(''agentId'', JNull),
         (''content'',
            JObj [(''text'', JStr ''hello''), (''metadata'', JObj [(''isShared'', JBool True)])]),
         (''createdAt'', JNum (Num 1000)),
         (''isMain'', JBool False),
         (''originalId'', JNull),
         (''chunkIndex'', JNull),
         (''isShared'', JBool True)]\<rparr>"

text \<open>
  An adapter whose store answers every retrieval with the point \<open>p\<close>, a lookup by the
  external id \<open>k1\<close>, and a knowledge record that is not shared, with the point that
  \<open>createKnowledge\<close> writes for it.
\<close>

definition example_reader :: "point_struct \<Rightarrow> adapter" where
  "example_reader p =
     example_adapter\<lparr>db := example_client\<lparr>db_retrieve := (\<lambda>c ids. Inr [as_stored p])\<rparr>\<rparr>"

definition example_lookup :: getKnowledge_params where
  "example_lookup =
     \<lparr>gk_query = None, gk_id = Some ''k1'', gk_conversationContext = None, gk_limit = None,
      gk_agentId = None\<rparr>"

definition example_private_knowledge :: rag_knowledge_item where
  "example_private_knowledge =
     \<lparr>k_id = ''k1'', k_agentId = ''a1'', k_text = ''hello'',
      k_metadata = JUndefined,
      k_embedding = Some [Num 1, Num 2, Num 3],
      k_createdAt = Some (Num 1000)\<rparr>"

definition example_private_point :: point_struct where
  "example_private_point =
     \<lparr>pt_id = ''<v5 k1>'',
      pt_vector = [Num 1, Num 2, Num 3],
      pt_payload =
        [(''agentId'', JStr ''a1''),
         (''content'', JObj [(''text'', JStr ''hello''), (''metadata'', JObj [])]),
         (''createdAt'', JNum (Num 1000)),
         (''isMain'', JBool False),
         (''originalId'', JNull),
         (''chunkIndex'', JNull),
         (''isShared'', JBool False)]\<rparr>"

text \<open>
  For the cache: a platform that writes the numbers 1, 2 and 3 as \<open>toString\<close> does, whose
  \<open>JSON.stringify\<close> writes the id of a result object and whose \<open>JSON.parse\<close> reads the
  two texts that arise below; a store whose search finds one point, and a store whose
  search fails; and a second query for the same agent and embedding with other options.
\<close>

definition quoted :: "string \<Rightarrow> string" where
  "quoted s = CHR 0x22 # s @ [CHR 0x22]"

definition example_json_platform :: platform where
  "example_json_platform =
     example_platform
       \<lparr>numToString := (\<lambda>n. if n = Num 1 then ''1'' else if n = Num 2 then ''2''
                             else if n = Num 3 then ''3'' else ''<number>''),
        JSON_stringify_item := (\<lambda>r. ''{'' @ quoted ''id'' @ '':'' @ quoted (kr_id r) @ ''}''),
        JSON_parse := (\<lambda>s. if s = ''[]'' then Inr (JArr [])
                            else if s = ''[{'' @ quoted ''id'' @ '':'' @ quoted ''p1'' @ ''}]''
                            then Inr (JArr [JObj [(''id'', JStr ''p1'')]])
                            else Inl SyntaxError)\<rparr>"

definition example_found_row :: stored_point where
  "example_found_row =
     \<lparr>sp_id = IdStr ''p1'',
      sp_payload = JObj [(''agentId'', JStr ''a1''), (''createdAt'', JNum (Num 1000))],
      sp_vector = Some [Num 1, Num 2, Num 3],
      sp_score = Some (Num (1 / 2))\<rparr>"

definition example_finding_adapter :: adapter where
  "example_finding_adapter =
     example_adapter\<lparr>db := example_client\<lparr>db_search := (\<lambda>c req. Inr [example_found_row])\<rparr>\<rparr>"

definition example_failing_adapter :: adapter where
  "example_failing_adapter =
     example_adapter
       \<lparr>db := example_client\<lparr>db_search := (\<lambda>c req. Inl (TransportError ''fetch failed''))\<rparr>\<rparr>"

definition example_query2 :: searchKnowledge_params where
  "example_query2 =
     \<lparr>sk_agentId = ''a1'', sk_embedding = [Num 1, Num 2, Num 3],
      sk_match_threshold = Some (Num (1 / 2)), sk_match_count = Some (Num 5),
      sk_searchText = Some ''hello''\<rparr>"

section \<open>searchKnowledge and the cache\<close>

lemma JSON_stringify_nonempty: "JSON_stringify pf rs \<noteq> []"
  by (simp add: JSON_stringify_def)

text \<open>
  C1, as the code has it. When the cache lookup of \<open>searchKnowledge\<close> misses (it returns
  \<open>undefined\<close> or the empty string), the call issues exactly one remote call: a
  similarity search on the adapter's collection whose vector is the query embedding, with
  \<open>with_vector: true\<close> and no filter, limit or threshold. It is not a retrieval by ids.
\<close>

theorem searchKnowledge_miss_issues_search:
  assumes "\<not> truthy_str (getCache this
             (sk_agentId params @ '':'' @ join '','' (map (numToString pf) (sk_embedding params)))
             (sk_agentId params))"
  shows "issued (snd (searchKnowledge pf this params)) =
           issued this @
             [Search (collectionName this)
                \<lparr>sr_vector = sk_embedding params, sr_limit = None, sr_score_threshold = None,
                 sr_filter = None, sr_with_payload = None, sr_with_vector = Some True\<rparr>]"
  using assms
  by (simp add: searchKnowledge_def this_search_def setCache_def Let_def
           split: sum.splits prod.splits)

theorem searchKnowledge_miss_issues_search_witness:
  "\<not> truthy_str (getCache example_adapter
        (sk_agentId example_query @ '':'' @
           join '','' (map (numToString example_platform) (sk_embedding example_query)))
        (sk_agentId example_query))
   \<and> issued (snd (searchKnowledge example_platform example_adapter example_query)) =
       issued example_adapter @
         [Search ''collection''
            \<lparr>sr_vector = [Num 1, Num 2, Num 3], sr_limit = None, sr_score_threshold = None,
             sr_filter = None, sr_with_payload = None, sr_with_vector = Some True\<rparr>]"
proof -
  have miss: "\<not> truthy_str (getCache example_adapter
        (sk_agentId example_query @ '':'' @
           join '','' (map (numToString example_platform) (sk_embedding example_query)))
        (sk_agentId example_query))"
    by (simp add: getCache_def example_adapter_def truthy_str_def)
  show ?thesis
    using miss searchKnowledge_miss_issues_search [OF miss]
    by (simp add: example_adapter_def example_query_def)
qed

text \<open>
  C1 as the specification states it fails: with an empty cache, the one call that
  \<open>searchKnowledge\<close> issues for agent \<open>a1\<close> and embedding \<open>[1, 2, 3]\<close> is a similarity
  search with that embedding, and no retrieval by ids is issued.
\<close>

theorem searchKnowledge_no_retrieve_counterexample:
  "getCache example_adapter
     (''a1'' @ '':'' @ join '','' (map (numToString example_platform) [Num 1, Num 2, Num 3]))
     ''a1'' = None
   \<and> issued (snd (searchKnowledge example_platform example_adapter example_query)) =
      [Search ''collection''
         \<lparr>sr_vector = [Num 1, Num 2, Num 3], sr_limit = None, sr_score_threshold = None,
          sr_filter = None, sr_with_payload = None, sr_with_vector = Some True\<rparr>]"
  by (simp add: searchKnowledge_def this_search_def setCache_def getCache_def Let_def
        example_adapter_def example_client_def example_platform_def example_query_def
        truthy_str_def)

text \<open>
  C2, as the code has it. Two calls of \<open>searchKnowledge\<close> for the same agentId \<open>a\<close> and
  the same embedding \<open>e\<close> (the other parameters may differ) use the cache entry
  \<open>a:a:e.toString()\<close>: the key \<open>a:e.toString()\<close> that \<open>searchKnowledge\<close> computes, with
  the agentId that \<open>buildKey\<close> puts in front of it.

  \<^item> When that entry is absent or the empty string and the store answers the search with
    \<open>rows\<close>, the first call issues one similarity search, returns the mapped rows and
    writes their \<open>JSON.stringify\<close> to the entry; the second call issues no remote call,
    leaves the adapter as it is and returns \<open>JSON.parse\<close> of that string. One remote
    call in total.
  \<^item> When the entry is absent or empty and the store fails, the first call issues the
    search, fails with the store's error and writes nothing to the cache; the second
    call issues the same search again. Two remote calls in total.
  \<^item> When the entry holds a non-empty string, a call issues no remote call and returns
    \<open>JSON.parse\<close> of it.
\<close>

theorem searchKnowledge_twice_one_remote_call:
  fixes pf :: platform and this :: adapter and params params2 :: searchKnowledge_params
  defines "entry \<equiv> sk_agentId params @ '':'' @ sk_agentId params @ '':'' @
                     join '','' (map (numToString pf) (sk_embedding params))"
    and "req \<equiv> \<lparr>sr_vector = sk_embedding params, sr_limit = None, sr_score_threshold = None,
                 sr_filter = None, sr_with_payload = None, sr_with_vector = Some True\<rparr>"
    and "first \<equiv> searchKnowledge pf this params"
  assumes same: "sk_agentId params2 = sk_agentId params"
                "sk_embedding params2 = sk_embedding params"
  shows "(\<not> truthy_str (cacheM this entry) \<longrightarrow>
            (\<forall>rows. db_search (db this) (collectionName this) req = Inr rows \<longrightarrow>
               first =
                 (Inr (Rows (map (searchKnowledge_row pf) rows)),
                  this\<lparr>issued := issued this @ [Search (collectionName this) req],
                       cacheM := (cacheM this)
                         (entry \<mapsto> JSON_stringify pf (map (searchKnowledge_row pf) rows))\<rparr>)
               \<and> searchKnowledge pf (snd first) params2 =
                   ((case JSON_parse pf
                            (JSON_stringify pf (map (searchKnowledge_row pf) rows)) of
                       Inl e \<Rightarrow> Inl e | Inr v \<Rightarrow> Inr (Parsed v)),
                    snd first))
          \<and> (\<forall>e. db_search (db this) (collectionName this) req = Inl e \<longrightarrow>
               first = (Inl e, this\<lparr>issued := issued this @ [Search (collectionName this) req]\<rparr>)
               \<and> searchKnowledge pf (snd first) params2 =
                   (Inl e,
                    this\<lparr>issued := issued this @ [Search (collectionName this) req,
                                                    Search (collectionName this) req]\<rparr>)))
     \<and> (\<forall>s. cacheM this entry = Some s \<and> s \<noteq> [] \<longrightarrow>
           first = ((case JSON_parse pf s of Inl e \<Rightarrow> Inl e | Inr v \<Rightarrow> Inr (Parsed v)), this)
           \<and> searchKnowledge pf (snd first) params2 = first)"
proof -
  let ?s = "\<lambda>rows. JSON_stringify pf (map (searchKnowledge_row pf) rows)"
  have ne: "\<And>rows. ?s rows \<noteq> []" by (rule JSON_stringify_nonempty)
  have found: "first = (Inr (Rows (map (searchKnowledge_row pf) rows)),
                  this\<lparr>issued := issued this @ [Search (collectionName this) req],
                       cacheM := (cacheM this)(entry \<mapsto> ?s rows)\<rparr>)"
    if "\<not> truthy_str (cacheM this entry)"
      and "db_search (db this) (collectionName this) req = Inr rows" for rows
    using that
    by (simp add: first_def searchKnowledge_def this_search_def setCache_def getCache_def
          buildKey_def entry_def req_def Let_def)
  have again: "searchKnowledge pf (snd first) params2 =
                 ((case JSON_parse pf (?s rows) of Inl e \<Rightarrow> Inl e | Inr v \<Rightarrow> Inr (Parsed v)),
                  snd first)"
    if "\<not> truthy_str (cacheM this entry)"
      and "db_search (db this) (collectionName this) req = Inr rows" for rows
    using ne [of rows]
    by (simp add: found [OF that] searchKnowledge_def getCache_def buildKey_def same
          entry_def truthy_str_def Let_def split: sum.splits)
  have failed: "first = (Inl e, this\<lparr>issued := issued this @ [Search (collectionName this) req]\<rparr>)"
    if "\<not> truthy_str (cacheM this entry)"
      and "db_search (db this) (collectionName this) req = Inl e" for e
    using that
    by (simp add: first_def searchKnowledge_def this_search_def getCache_def
          buildKey_def entry_def req_def Let_def)
  have failed2: "searchKnowledge pf (snd first) params2 =
                   (Inl e, this\<lparr>issued := issued this @ [Search (collectionName this) req,
                                                          Search (collectionName this) req]\<rparr>)"
    if "\<not> truthy_str (cacheM this entry)"
      and "db_search (db this) (collectionName this) req = Inl e" for e
    using that
    by (simp add: failed [OF that] searchKnowledge_def this_search_def getCache_def
          buildKey_def same entry_def req_def Let_def)
  have hit: "first = ((case JSON_parse pf s of Inl e \<Rightarrow> Inl e | Inr v \<Rightarrow> Inr (Parsed v)), this)"
    if "cacheM this entry = Some s" and "s \<noteq> []" for s
    using that
    by (simp add: first_def searchKnowledge_def getCache_def buildKey_def entry_def
          truthy_str_def Let_def split: sum.splits)
  have hit2: "searchKnowledge pf (snd first) params2 = first"
    if "cacheM this entry = Some s" and "s \<noteq> []" for s
    using that
    by (simp add: hit [OF that] searchKnowledge_def getCache_def buildKey_def same entry_def
          truthy_str_def Let_def split: sum.splits)
  show ?thesis
    using found again failed failed2 hit hit2 by blast
qed

theorem searchKnowledge_twice_one_remote_call_witness:
  "sk_agentId example_query2 = sk_agentId example_query
   \<and> sk_embedding example_query2 = sk_embedding example_query
   \<and> example_query2 \<noteq> example_query
   \<and> \<not> truthy_str (cacheM example_finding_adapter ''a1:a1:1,2,3'')
   \<and> searchKnowledge example_json_platform example_finding_adapter example_query =
       (Inr (Rows [\<lparr>kr_id = ''p1'', kr_agentId = JStr ''a1'', kr_text = [],
                     kr_metadata = JObj [(''agentId'', JStr ''a1''),
                                         (''createdAt'', JNum (Num 1000))],
                     kr_embedding = Some [Num 1, Num 2, Num 3],
                     kr_createdAt = JNum (Num 1000),
                     kr_similarity = Some (Num (1 / 2))\<rparr>]),
        example_finding_adapter
          \<lparr>issued :=
             [Search ''collection''
                \<lparr>sr_vector = [Num 1, Num 2, Num 3], sr_limit = None,
                 sr_score_threshold = None, sr_filter = None, sr_with_payload = None,
                 sr_with_vector = Some True\<rparr>],
           cacheM := [''a1:a1:1,2,3'' \<mapsto> ''[{'' @ quoted ''id'' @ '':'' @ quoted ''p1'' @ ''}]'']\<rparr>)
   \<and> searchKnowledge example_json_platform
         (snd (searchKnowledge example_json_platform example_finding_adapter example_query))
         example_query2 =
       (Inr (Parsed (JArr [JObj [(''id'', JStr ''p1'')]])),
        snd (searchKnowledge example_json_platform example_finding_adapter example_query))"
proof -
  have same: "sk_agentId example_query2 = sk_agentId example_query"
    "sk_embedding example_query2 = sk_embedding example_query"
    by (simp_all add: example_query2_def example_query_def)
  have differ: "example_query2 \<noteq> example_query"
    by (simp add: example_query2_def example_query_def)
  have entry: "sk_agentId example_query @ '':'' @ sk_agentId example_query @ '':'' @
                 join '','' (map (numToString example_json_platform) (sk_embedding example_query))
               = ''a1:a1:1,2,3''"
    by (simp add: example_query_def example_json_platform_def example_platform_def)
  have miss: "\<not> truthy_str (cacheM example_finding_adapter ''a1:a1:1,2,3'')"
    by (simp add: example_finding_adapter_def example_adapter_def truthy_str_def)
  have answer: "db_search (db example_finding_adapter) (collectionName example_finding_adapter)
                  \<lparr>sr_vector = sk_embedding example_query, sr_limit = None,
                   sr_score_threshold = None, sr_filter = None, sr_with_payload = None,
                   sr_with_vector = Some True\<rparr> = Inr [example_found_row]"
    by (simp add: example_finding_adapter_def example_adapter_def example_client_def)
  have written: "JSON_stringify example_json_platform
                [searchKnowledge_row example_json_platform example_found_row] =
              ''[{'' @ quoted ''id'' @ '':'' @ quoted ''p1'' @ ''}]''"
    by (simp add: JSON_stringify_def searchKnowledge_row_def id_toString_def
          example_json_platform_def example_platform_def example_found_row_def)
  have row: "searchKnowledge_row example_json_platform example_found_row =
       \<lparr>kr_id = ''p1'', kr_agentId = JStr ''a1'', kr_text = [],
        kr_metadata = JObj [(''agentId'', JStr ''a1''), (''createdAt'', JNum (Num 1000))],
        kr_embedding = Some [Num 1, Num 2, Num 3],
        kr_createdAt = JNum (Num 1000),
        kr_similarity = Some (Num (1 / 2))\<rparr>"
    by (simp add: searchKnowledge_row_def id_toString_def js_String_def js_or_def num_or_def
          example_json_platform_def example_platform_def example_found_row_def)
  have parse: "JSON_parse example_json_platform
                 (''[{'' @ quoted ''id'' @ '':'' @ quoted ''p1'' @ ''}]'') =
               Inr (JArr [JObj [(''id'', JStr ''p1'')]])"
    by (simp add: example_json_platform_def example_platform_def quoted_def)
  have start: "issued example_finding_adapter = []"
    "cacheM example_finding_adapter = Map.empty"
    "collectionName example_finding_adapter = ''collection''"
    "sk_embedding example_query = [Num 1, Num 2, Num 3]"
    by (simp_all add: example_finding_adapter_def example_adapter_def example_query_def)
  from searchKnowledge_twice_one_remote_call
         [where pf = example_json_platform and this = example_finding_adapter, OF same]
  have "searchKnowledge example_json_platform example_finding_adapter example_query =
          (Inr (Rows (map (searchKnowledge_row example_json_platform) [example_found_row])),
           example_finding_adapter
             \<lparr>issued := issued example_finding_adapter @
                [Search (collectionName example_finding_adapter)
                   \<lparr>sr_vector = sk_embedding example_query, sr_limit = None,
                    sr_score_threshold = None, sr_filter = None, sr_with_payload = None,
                    sr_with_vector = Some True\<rparr>],
              cacheM := (cacheM example_finding_adapter)
                (''a1:a1:1,2,3'' \<mapsto>
                   JSON_stringify example_json_platform
                     (map (searchKnowledge_row example_json_platform) [example_found_row]))\<rparr>)
        \<and> searchKnowledge example_json_platform
            (snd (searchKnowledge example_json_platform example_finding_adapter example_query))
            example_query2 =
          ((case JSON_parse example_json_platform
                  (JSON_stringify example_json_platform
                     (map (searchKnowledge_row example_json_platform) [example_found_row])) of
              Inl e \<Rightarrow> Inl e | Inr v \<Rightarrow> Inr (Parsed v)),
           snd (searchKnowledge example_json_platform example_finding_adapter example_query))"
    using miss answer unfolding entry by blast
  then show ?thesis
    using same differ miss
    apply (simp only: list.map written)
    apply (simp only: row parse start sum.case append_Nil)
    apply (elim conjE)
    apply simp
    done
qed

text \<open>
  C2 as the specification states it fails: when the store fails, nothing is cached, and
  two calls of \<open>searchKnowledge\<close> for agent \<open>a1\<close> and embedding \<open>[1, 2, 3]\<close> issue two
  remote calls, each of them the similarity search.
\<close>

theorem searchKnowledge_failing_store_counterexample:
  "fst (searchKnowledge example_json_platform example_failing_adapter example_query) =
     Inl (TransportError ''fetch failed'')
   \<and> cacheM (snd (searchKnowledge example_json_platform example_failing_adapter example_query))
       ''a1:a1:1,2,3'' = None
   \<and> issued (snd (searchKnowledge example_json_platform
                    (snd (searchKnowledge example_json_platform example_failing_adapter
                            example_query))
                    example_query)) =
       [Search ''collection''
          \<lparr>sr_vector = [Num 1, Num 2, Num 3], sr_limit = None, sr_score_threshold = None,
           sr_filter = None, sr_with_payload = None, sr_with_vector = Some True\<rparr>,
        Search ''collection''
          \<lparr>sr_vector = [Num 1, Num 2, Num 3], sr_limit = None, sr_score_threshold = None,
           sr_filter = None, sr_with_payload = None, sr_with_vector = Some True\<rparr>]"
  by (simp add: searchKnowledge_def this_search_def getCache_def buildKey_def Let_def
        truthy_str_def example_failing_adapter_def example_adapter_def example_client_def
        example_json_platform_def example_platform_def example_query_def)

section \<open>searchMemoriesByEmbedding\<close>

lemma searchMemoriesByEmbedding_issued:
  "vectorSize this = Num (of_nat (length embedding)) \<Longrightarrow>
     issued (snd (searchMemoriesByEmbedding pf this embedding params)) =
       issued this @
         [Search (collectionName this)
            \<lparr>sr_vector = cleanVector embedding,
             sr_limit = Some (num_or (se_count params) (Num 10)),
             sr_score_threshold = Some (num_or (se_match_threshold params) (Num 0)),
             sr_filter = Some (searchMemoriesByEmbedding_filter params),
             sr_with_payload = Some True, sr_with_vector = Some True\<rparr>]"
  by (auto simp add: searchMemoriesByEmbedding_def this_search_def split: sum.splits)

lemma example_search_filter:
  "searchMemoriesByEmbedding_filter example_search_params =
     \<lparr>must = [Match ''type'' (JStr ''facts''), Match ''roomId'' (JStr ''r1'')]\<rparr>"
  by (simp add: searchMemoriesByEmbedding_filter_def example_search_params_def truthy_str_def
        str_val_def)

lemma example_search_defaults:
  "num_or (se_count example_search_params) (Num 10) = Num 10"
  "num_or (se_match_threshold example_search_params) (Num 0) = Num 0"
  by (simp_all add: num_or_def example_search_params_def)

text \<open>
  C6. When the length of the embedding differs from \<open>vectorSize\<close>,
  \<open>searchMemoriesByEmbedding\<close> throws an Error whose message names the expected and the
  actual dimension, and leaves the adapter as it was: no remote call is issued. When the
  length is \<open>vectorSize\<close>, the guard does not fire: the search is issued, and the call
  returns what the store's answer gives (the store's own error, or the mapped results).
\<close>

theorem searchMemoriesByEmbedding_dimension_guard:
  "(vectorSize this \<noteq> Num (of_nat (length embedding)) \<longrightarrow>
      searchMemoriesByEmbedding pf this embedding params =
        (Inl (Error (''Invalid embedding dimension: expected '' @ numToString pf (vectorSize this)
                       @ '', got '' @ numToString pf (Num (of_nat (length embedding))))),
         this))
   \<and> (vectorSize this = Num (of_nat (length embedding)) \<longrightarrow>
        issued (snd (searchMemoriesByEmbedding pf this embedding params)) =
          issued this @
            [Search (collectionName this)
               \<lparr>sr_vector = cleanVector embedding,
                sr_limit = Some (num_or (se_count params) (Num 10)),
                sr_score_threshold = Some (num_or (se_match_threshold params) (Num 0)),
                sr_filter = Some (searchMemoriesByEmbedding_filter params),
                sr_with_payload = Some True, sr_with_vector = Some True\<rparr>]
        \<and> fst (searchMemoriesByEmbedding pf this embedding params) =
            (case db_search (db this) (collectionName this)
                    \<lparr>sr_vector = cleanVector embedding,
                     sr_limit = Some (num_or (se_count params) (Num 10)),
                     sr_score_threshold = Some (num_or (se_match_threshold params) (Num 0)),
                     sr_filter = Some (searchMemoriesByEmbedding_filter params),
                     sr_with_payload = Some True, sr_with_vector = Some True\<rparr> of
               Inl e \<Rightarrow> Inl e
             | Inr rs \<Rightarrow> map_err searchMemoriesByEmbedding_result rs))"
  by (auto simp add: searchMemoriesByEmbedding_def dimension_message_def this_search_def
        split: sum.splits)

theorem searchMemoriesByEmbedding_dimension_guard_witness:
  "vectorSize example_adapter \<noteq> Num (of_nat (length [Num 1, Num 2]))
   \<and> searchMemoriesByEmbedding example_platform example_adapter [Num 1, Num 2]
        example_search_params =
      (Inl (Error ''Invalid embedding dimension: expected <number>, got <number>''),
       example_adapter)
   \<and> vectorSize example_adapter = Num (of_nat (length [Num 1, Num 2, Num 3]))
   \<and> issued (snd (searchMemoriesByEmbedding example_platform example_adapter
                    [Num 1, Num 2, Num 3] example_search_params)) =
       [Search ''collection''
          \<lparr>sr_vector = [Num 1, Num 2, Num 3], sr_limit = Some (Num 10),
           sr_score_threshold = Some (Num 0),
           sr_filter = Some \<lparr>must = [Match ''type'' (JStr ''facts''),
                                    Match ''roomId'' (JStr ''r1'')]\<rparr>,
           sr_with_payload = Some True, sr_with_vector = Some True\<rparr>]
   \<and> fst (searchMemoriesByEmbedding example_platform example_adapter
             [Num 1, Num 2, Num 3] example_search_params) = Inr []"
proof -
  have c: "cleanVector [Num 1, Num 2, Num 3] = [Num 1, Num 2, Num 3]" by code_simp
  have v2: "vectorSize example_adapter \<noteq> Num (of_nat (length [Num 1, Num 2]))"
    by (simp add: example_adapter_def)
  have v3: "vectorSize example_adapter = Num (of_nat (length [Num 1, Num 2, Num 3]))"
    by (simp add: example_adapter_def)
  show ?thesis
    using v2 v3
      searchMemoriesByEmbedding_dimension_guard
        [of example_adapter "[Num 1, Num 2]" example_platform example_search_params]
      searchMemoriesByEmbedding_dimension_guard
        [of example_adapter "[Num 1, Num 2, Num 3]" example_platform example_search_params]
    by (simp add: c example_search_filter example_search_defaults)
       (simp add: example_adapter_def example_platform_def example_client_def)
qed

lemma toFixed6_rounds: "\<exists>k::int. toFixed6 x = of_int k / 10 ^ 6 \<and> \<bar>of_int k / 10 ^ 6 - x\<bar> \<le> 1 / 2000000"
proof -
  define n where "n = \<lfloor>\<bar>x\<bar> * 10 ^ 6 + 1 / 2\<rfloor>"
  have lo: "of_int n \<le> \<bar>x\<bar> * 10 ^ 6 + 1 / 2" unfolding n_def by (rule of_int_floor_le)
  have hi: "\<bar>x\<bar> * 10 ^ 6 + 1 / 2 < of_int n + 1" unfolding n_def by linarith
  show ?thesis
  proof (cases "x < 0")
    case True
    then have eq: "toFixed6 x = of_int (- n) / 10 ^ 6"
      by (simp add: toFixed6_def n_def)
    moreover have "\<bar>of_int (- n) / 10 ^ 6 - x\<bar> \<le> 1 / 2000000"
      using lo hi True by (simp add: abs_if field_simps)
    ultimately show ?thesis by blast
  next
    case False
    then have eq: "toFixed6 x = of_int n / 10 ^ 6"
      by (simp add: toFixed6_def n_def)
    moreover have "\<bar>of_int n / 10 ^ 6 - x\<bar> \<le> 1 / 2000000"
      using lo hi False by (simp add: abs_if field_simps)
    ultimately show ?thesis by blast
  qed
qed

lemma cleanVector_nth:
  "i < length embedding \<Longrightarrow>
     cleanVector embedding ! i =
       (case embedding ! i of Num x \<Rightarrow> Number_toFixed6 x | _ \<Rightarrow> Num 0)"
  by (cases "embedding ! i") (simp_all add: cleanVector_def)

text \<open>
  C8. With an embedding of length \<open>vectorSize\<close>, the vector of the search that
  \<open>searchMemoriesByEmbedding\<close> issues is the cleaned embedding. The cleaning keeps the
  length and works element by element: a non-finite element becomes \<open>0\<close>; a finite
  element \<open>x\<close> below \<open>10^21\<close> in magnitude becomes the double nearest to \<open>k / 10^6\<close>,
  where \<open>k / 10^6\<close> is \<open>x\<close> rounded to six decimals (at most \<open>0.5 * 10^-6\<close> away from
  \<open>x\<close>); a larger one (an integer, as a double) stays as it is. The doubles
  \<open>0.123456789\<close> and \<open>0.123457\<close> are \<open>8895999182988127 / 2^56\<close> and
  \<open>8896014387140469 / 2^56\<close>, and \<open>[1.0, NaN, 0.123456789]\<close> is cleaned to
  \<open>[1, 0, 0.123457]\<close>. Of two equally near decimals the one larger in magnitude is
  taken: \<open>0.0078125\<close> becomes \<open>0.007813\<close> and \<open>-0.0078125\<close> becomes \<open>-0.007813\<close>; the
  double \<open>5e-7\<close>, which is below \<open>0.0000005\<close>, becomes \<open>0\<close>.
\<close>

theorem searchMemoriesByEmbedding_cleans_vector:
  "(vectorSize this = Num (of_nat (length embedding)) \<longrightarrow>
      (\<exists>req. issued (snd (searchMemoriesByEmbedding pf this embedding params)) =
               issued this @ [Search (collectionName this) req]
           \<and> sr_vector req = cleanVector embedding))
   \<and> length (cleanVector embedding) = length embedding
   \<and> (\<forall>i < length embedding.
         (\<not> Number_isFinite (embedding ! i) \<longrightarrow> cleanVector embedding ! i = Num 0)
       \<and> (\<forall>x. embedding ! i = Num x \<longrightarrow>
             (\<bar>x\<bar> < 10 ^ 21 \<longrightarrow>
                (\<exists>k::int. \<bar>of_int k / 10 ^ 6 - x\<bar> \<le> 1 / 2000000
                    \<and> cleanVector embedding ! i = nearest_double (of_int k / 10 ^ 6)))
           \<and> (10 ^ 21 \<le> \<bar>x\<bar> \<longrightarrow> cleanVector embedding ! i = Num x)))
   \<and> nearest_double (123456789 / 10 ^ 9) = Num (8895999182988127 / 2 ^ 56)
   \<and> nearest_double (123457 / 10 ^ 6) = Num (8896014387140469 / 2 ^ 56)
   \<and> cleanVector [Num 1, NaN, Num (8895999182988127 / 2 ^ 56)]
       = [Num 1, Num 0, Num (8896014387140469 / 2 ^ 56)]
   \<and> nearest_double (7813 / 10 ^ 6) = Num (562985982218331 / 2 ^ 56)
   \<and> cleanVector [Num (1 / 128), Num (- (1 / 128))]
       = [Num (562985982218331 / 2 ^ 56), Num (- (562985982218331 / 2 ^ 56))]
   \<and> nearest_double (5 / 10 ^ 7) = Num (4722366482869645 / 2 ^ 73)
   \<and> cleanVector [Num (4722366482869645 / 2 ^ 73)] = [Num 0]"
proof (intro conjI impI allI)
  assume "vectorSize this = Num (of_nat (length embedding))"
  from searchMemoriesByEmbedding_issued [OF this]
  show "\<exists>req. issued (snd (searchMemoriesByEmbedding pf this embedding params)) =
               issued this @ [Search (collectionName this) req]
           \<and> sr_vector req = cleanVector embedding"
    by simp
next
  show "length (cleanVector embedding) = length embedding" by (simp add: cleanVector_def)
next
  fix i assume "i < length embedding" "\<not> Number_isFinite (embedding ! i)"
  then show "cleanVector embedding ! i = Num 0"
    by (cases "embedding ! i") (simp_all add: cleanVector_nth)
next
  fix i x assume i: "i < length embedding" and x: "embedding ! i = Num x" and s: "\<bar>x\<bar> < 10 ^ 21"
  have c: "cleanVector embedding ! i = nearest_double (toFixed6 x)"
    using i x s by (simp add: cleanVector_nth Number_toFixed6_def)
  from toFixed6_rounds [of x] obtain k :: int
    where "toFixed6 x = of_int k / 10 ^ 6" "\<bar>of_int k / 10 ^ 6 - x\<bar> \<le> 1 / 2000000"
    by blast
  with c show "\<exists>k::int. \<bar>of_int k / 10 ^ 6 - x\<bar> \<le> 1 / 2000000
                 \<and> cleanVector embedding ! i = nearest_double (of_int k / 10 ^ 6)"
    by auto
next
  fix i x assume i: "i < length embedding" and x: "embedding ! i = Num x" and s: "10 ^ 21 \<le> \<bar>x\<bar>"
  then show "cleanVector embedding ! i = Num x"
    by (simp add: cleanVector_nth Number_toFixed6_def)
next
  show "nearest_double (123456789 / 10 ^ 9) = Num (8895999182988127 / 2 ^ 56)" by code_simp
next
  show "nearest_double (123457 / 10 ^ 6) = Num (8896014387140469 / 2 ^ 56)" by code_simp
next
  show "cleanVector [Num 1, NaN, Num (8895999182988127 / 2 ^ 56)]
          = [Num 1, Num 0, Num (8896014387140469 / 2 ^ 56)]"
    by code_simp
next
  show "nearest_double (7813 / 10 ^ 6) = Num (562985982218331 / 2 ^ 56)" by code_simp
next
  show "cleanVector [Num (1 / 128), Num (- (1 / 128))]
          = [Num (562985982218331 / 2 ^ 56), Num (- (562985982218331 / 2 ^ 56))]"
    by code_simp
next
  show "nearest_double (5 / 10 ^ 7) = Num (4722366482869645 / 2 ^ 73)" by code_simp
next
  show "cleanVector [Num (4722366482869645 / 2 ^ 73)] = [Num 0]" by code_simp
qed

theorem searchMemoriesByEmbedding_cleans_vector_witness:
  "vectorSize example_adapter
     = Num (of_nat (length [Num 1, NaN, Num (8895999182988127 / 2 ^ 56)]))
   \<and> issued (snd (searchMemoriesByEmbedding example_platform example_adapter
                    [Num 1, NaN, Num (8895999182988127 / 2 ^ 56)] example_search_params)) =
       [Search ''collection''
          \<lparr>sr_vector = [Num 1, Num 0, Num (8896014387140469 / 2 ^ 56)],
           sr_limit = Some (Num 10), sr_score_threshold = Some (Num 0),
           sr_filter = Some \<lparr>must = [Match ''type'' (JStr ''facts''),
                                    Match ''roomId'' (JStr ''r1'')]\<rparr>,
           sr_with_payload = Some True, sr_with_vector = Some True\<rparr>]"
proof -
  let ?e = "[Num 1, NaN, Num (8895999182988127 / 2 ^ 56)]"
  have v3: "vectorSize example_adapter = Num (of_nat (length ?e))"
    by (simp add: example_adapter_def)
  have i: "issued (snd (searchMemoriesByEmbedding example_platform example_adapter ?e
                          example_search_params)) =
       [Search ''collection''
          \<lparr>sr_vector = cleanVector ?e,
           sr_limit = Some (Num 10), sr_score_threshold = Some (Num 0),
           sr_filter = Some \<lparr>must = [Match ''type'' (JStr ''facts''),
                                    Match ''roomId'' (JStr ''r1'')]\<rparr>,
           sr_with_payload = Some True, sr_with_vector = Some True\<rparr>]"
    unfolding searchMemoriesByEmbedding_issued [OF v3, of example_platform example_search_params]
      example_search_filter example_search_defaults
    by (simp add: example_adapter_def)
  from searchMemoriesByEmbedding_cleans_vector
         [of example_adapter ?e example_platform example_search_params]
  have "cleanVector ?e = [Num 1, Num 0, Num (8896014387140469 / 2 ^ 56)]"
    by blast
  then show ?thesis unfolding i using v3 by simp
qed

section \<open>getMemories\<close>

lemma map_err_total:
  "(\<And>x. x \<in> set xs \<Longrightarrow> f x = Inr (g x)) \<Longrightarrow> map_err f xs = Inr (map g xs)"
  by (induction xs) simp_all

lemma getMemories_point_payload:
  "sp_payload p \<noteq> JUndefined \<Longrightarrow> sp_payload p \<noteq> JNull \<Longrightarrow>
     getMemories_point p = Inr (memory_of_payload p)"
  by (cases "sp_payload p") (simp_all add: getMemories_point_def memory_of_payload_def)

lemma example_listing_filter:
  "getMemories_filter example_listing =
     \<lparr>must = [Match ''type'' (JStr ''facts''), Match ''roomId'' (JStr ''r1''),
              Match ''unique'' (JStr ''true''),
              InRange ''createdAt'' (Some (Num 100)) (Some (Num 200))]\<rparr>"
  by (simp add: getMemories_filter_def example_listing_def truthy_str_def truthy_numo_def
        str_val_def Boolean_toString_def)

text \<open>
  C9, as the code has it. \<open>getMemories\<close> throws an Error and issues no remote call
  when \<open>tableName\<close> is missing or empty, and when \<open>roomId\<close> is. When both are there
  it issues one scroll on the collection, with the filter of the parameters, payloads and
  vectors asked for, and as limit \<open>params.count\<close> when that is a truthy number, and
  \<open>100\<close> when \<open>count\<close> is not given or is falsy (\<open>0\<close>, \<open>NaN\<close>). When the store
  answers with points that have payloads, the call returns one record for each point, in
  order: its nine fields are the payload's \<open>id\<close>, \<open>type\<close>, \<open>content\<close>, \<open>userId\<close>,
  \<open>roomId\<close>, \<open>agentId\<close>, \<open>unique\<close> and \<open>createdAt\<close>, and the point's vector as
  embedding (\<open>[]\<close> for a point without a vector). An answer without points gives no
  records, and an error of the store is the error of the call.
\<close>

theorem getMemories_requires_and_scrolls:
  "(\<not> truthy_str (gm_tableName params) \<longrightarrow>
      getMemories this params = (Inl (Error ''tableName is required''), this))
   \<and> (truthy_str (gm_tableName params) \<and> \<not> truthy_str (gm_roomId params) \<longrightarrow>
        getMemories this params = (Inl (Error ''roomId is required''), this))
   \<and> (truthy_str (gm_tableName params) \<and> truthy_str (gm_roomId params) \<longrightarrow>
        snd (getMemories this params) =
          this\<lparr>issued := issued this @
            [Scroll (collectionName this)
               \<lparr>sc_limit = (case gm_count params of
                               None \<Rightarrow> Num 100
                             | Some c \<Rightarrow> if truthy_num c then c else Num 100),
                sc_filter = getMemories_filter params,
                sc_with_payload = True, sc_with_vector = True\<rparr>]\<rparr>
        \<and> (\<forall>points.
              db_scroll (db this) (collectionName this)
                \<lparr>sc_limit = (case gm_count params of
                                None \<Rightarrow> Num 100
                              | Some c \<Rightarrow> if truthy_num c then c else Num 100),
                 sc_filter = getMemories_filter params,
                 sc_with_payload = True, sc_with_vector = True\<rparr> = Inr (Some points)
              \<and> (\<forall>p \<in> set points. sp_payload p \<noteq> JUndefined \<and> sp_payload p \<noteq> JNull) \<longrightarrow>
              fst (getMemories this params) =
                Inr (map (\<lambda>p. \<lparr>mr_id = prop_opt (sp_payload p) ''id'',
                                mr_type = prop_opt (sp_payload p) ''type'',
                                mr_content = prop_opt (sp_payload p) ''content'',
                                mr_embedding = (case sp_vector p of Some v \<Rightarrow> v | None \<Rightarrow> []),
                                mr_userId = prop_opt (sp_payload p) ''userId'',
                                mr_roomId = prop_opt (sp_payload p) ''roomId'',
                                mr_agentId = prop_opt (sp_payload p) ''agentId'',
                                mr_unique = prop_opt (sp_payload p) ''unique'',
                                mr_createdAt = prop_opt (sp_payload p) ''createdAt'',
                                mr_similarity = None\<rparr>) points))
        \<and> (db_scroll (db this) (collectionName this)
                \<lparr>sc_limit = (case gm_count params of
                                None \<Rightarrow> Num 100
                              | Some c \<Rightarrow> if truthy_num c then c else Num 100),
                 sc_filter = getMemories_filter params,
                 sc_with_payload = True, sc_with_vector = True\<rparr> = Inr None \<longrightarrow>
             fst (getMemories this params) = Inr [])
        \<and> (\<forall>e.
              db_scroll (db this) (collectionName this)
                \<lparr>sc_limit = (case gm_count params of
                                None \<Rightarrow> Num 100
                              | Some c \<Rightarrow> if truthy_num c then c else Num 100),
                 sc_filter = getMemories_filter params,
                 sc_with_payload = True, sc_with_vector = True\<rparr> = Inl e \<longrightarrow>
              fst (getMemories this params) = Inl e))"
proof -
  let ?req = "\<lparr>sc_limit = (case gm_count params of
                               None \<Rightarrow> Num 100
                             | Some c \<Rightarrow> if truthy_num c then c else Num 100),
                sc_filter = getMemories_filter params,
                sc_with_payload = True, sc_with_vector = True\<rparr>"
  have req: "\<lparr>sc_limit = num_or (gm_count params) (Num 100),
              sc_filter = getMemories_filter params,
              sc_with_payload = True, sc_with_vector = True\<rparr> = ?req"
    by (simp add: num_or_def)
  have 1: "getMemories this params = (Inl (Error ''tableName is required''), this)"
    if "\<not> truthy_str (gm_tableName params)"
    using that by (simp add: getMemories_def)
  have 2: "getMemories this params = (Inl (Error ''roomId is required''), this)"
    if "truthy_str (gm_tableName params) \<and> \<not> truthy_str (gm_roomId params)"
    using that by (simp add: getMemories_def)
  have body: "getMemories this params =
      (case db_scroll (db this) (collectionName this) ?req of
         Inl e \<Rightarrow> Inl e
       | Inr points \<Rightarrow> map_err getMemories_point (case points of Some ps \<Rightarrow> ps | None \<Rightarrow> []),
       this\<lparr>issued := issued this @ [Scroll (collectionName this) ?req]\<rparr>)"
    if "truthy_str (gm_tableName params) \<and> truthy_str (gm_roomId params)"
    using that unfolding getMemories_def this_scroll_def req
    by (simp split: sum.splits)
  have 3: "fst (getMemories this params) =
                Inr (map (\<lambda>p. \<lparr>mr_id = prop_opt (sp_payload p) ''id'',
                                mr_type = prop_opt (sp_payload p) ''type'',
                                mr_content = prop_opt (sp_payload p) ''content'',
                                mr_embedding = (case sp_vector p of Some v \<Rightarrow> v | None \<Rightarrow> []),
                                mr_userId = prop_opt (sp_payload p) ''userId'',
                                mr_roomId = prop_opt (sp_payload p) ''roomId'',
                                mr_agentId = prop_opt (sp_payload p) ''agentId'',
                                mr_unique = prop_opt (sp_payload p) ''unique'',
                                mr_createdAt = prop_opt (sp_payload p) ''createdAt'',
                                mr_similarity = None\<rparr>) points)"
    if ok: "truthy_str (gm_tableName params) \<and> truthy_str (gm_roomId params)"
      and pts: "db_scroll (db this) (collectionName this) ?req = Inr (Some points)
                \<and> (\<forall>p \<in> set points. sp_payload p \<noteq> JUndefined \<and> sp_payload p \<noteq> JNull)"
    for points
  proof -
    have "map_err getMemories_point points = Inr (map memory_of_payload points)"
      using pts by (intro map_err_total getMemories_point_payload) auto
    then show ?thesis
      using pts by (simp add: body [OF ok] memory_of_payload_def [abs_def])
  qed
  show ?thesis
    using 1 2 3 by (auto simp add: body)
qed

theorem getMemories_requires_and_scrolls_witness:
  "getMemories example_adapter (example_listing\<lparr>gm_tableName := None\<rparr>) =
     (Inl (Error ''tableName is required''), example_adapter)
   \<and> getMemories example_adapter (example_listing\<lparr>gm_roomId := Some []\<rparr>) =
     (Inl (Error ''roomId is required''), example_adapter)
   \<and> truthy_str (gm_tableName example_listing) \<and> truthy_str (gm_roomId example_listing)
   \<and> issued (snd (getMemories example_adapter example_listing)) =
       [Scroll ''collection''
          \<lparr>sc_limit = Num 100,
           sc_filter =
             \<lparr>must = [Match ''type'' (JStr ''facts''), Match ''roomId'' (JStr ''r1''),
                      Match ''unique'' (JStr ''true''),
                      InRange ''createdAt'' (Some (Num 100)) (Some (Num 200))]\<rparr>,
           sc_with_payload = True, sc_with_vector = True\<rparr>]
   \<and> fst (getMemories example_adapter example_listing) =
       Inr [\<lparr>mr_id = JStr ''m1'', mr_type = JStr ''facts'',
             mr_content = JObj [(''text'', JStr ''hello'')],
             mr_embedding = [Num 1, Num 2, Num 3], mr_userId = JStr ''u1'',
             mr_roomId = JStr ''r1'', mr_agentId = JStr ''a1'', mr_unique = JBool True,
             mr_createdAt = JNum (Num 150), mr_similarity = None\<rparr>]"
proof -
  have t: "truthy_str (gm_tableName example_listing) \<and> truthy_str (gm_roomId example_listing)"
    by (simp add: example_listing_def truthy_str_def)
  have n: "\<not> truthy_str (gm_tableName (example_listing\<lparr>gm_tableName := None\<rparr>))"
     "truthy_str (gm_tableName (example_listing\<lparr>gm_roomId := Some []\<rparr>))
      \<and> \<not> truthy_str (gm_roomId (example_listing\<lparr>gm_roomId := Some []\<rparr>))"
    by (simp_all add: truthy_str_def example_listing_def)
  have c: "gm_count example_listing = None" by (simp add: example_listing_def)
  have r: "fst (getMemories example_adapter example_listing) =
       Inr [\<lparr>mr_id = JStr ''m1'', mr_type = JStr ''facts'',
             mr_content = JObj [(''text'', JStr ''hello'')],
             mr_embedding = [Num 1, Num 2, Num 3], mr_userId = JStr ''u1'',
             mr_roomId = JStr ''r1'', mr_agentId = JStr ''a1'', mr_unique = JBool True,
             mr_createdAt = JNum (Num 150), mr_similarity = None\<rparr>]"
    using t
    by (simp add: getMemories_def this_scroll_def example_adapter_def example_client_def
          example_point_def getMemories_point_def)
  from getMemories_requires_and_scrolls [of "example_listing\<lparr>gm_tableName := None\<rparr>" example_adapter] n(1)
  have e1: "getMemories example_adapter (example_listing\<lparr>gm_tableName := None\<rparr>) =
     (Inl (Error ''tableName is required''), example_adapter)"
    by blast
  from getMemories_requires_and_scrolls [of "example_listing\<lparr>gm_roomId := Some []\<rparr>" example_adapter] n(2)
  have e2: "getMemories example_adapter (example_listing\<lparr>gm_roomId := Some []\<rparr>) =
     (Inl (Error ''roomId is required''), example_adapter)"
    by blast
  from getMemories_requires_and_scrolls [of example_listing example_adapter] t
  have "snd (getMemories example_adapter example_listing) =
          example_adapter\<lparr>issued := issued example_adapter @
            [Scroll (collectionName example_adapter)
               \<lparr>sc_limit = (case gm_count example_listing of
                               None \<Rightarrow> Num 100
                             | Some c \<Rightarrow> if truthy_num c then c else Num 100),
                sc_filter = getMemories_filter example_listing,
                sc_with_payload = True, sc_with_vector = True\<rparr>]\<rparr>"
    by blast
  then have i: "issued (snd (getMemories example_adapter example_listing)) =
       [Scroll ''collection''
          \<lparr>sc_limit = Num 100,
           sc_filter =
             \<lparr>must = [Match ''type'' (JStr ''facts''), Match ''roomId'' (JStr ''r1''),
                      Match ''unique'' (JStr ''true''),
                      InRange ''createdAt'' (Some (Num 100)) (Some (Num 200))]\<rparr>,
           sc_with_payload = True, sc_with_vector = True\<rparr>]"
    by (simp add: c example_listing_filter) (simp add: example_adapter_def)
  show ?thesis using t e1 e2 r i by simp
qed

text \<open>
  C9 as the specification states it fails: with \<open>count: 0\<close> supplied, the scroll is
  not limited to \<open>params.count\<close>; its limit is \<open>100\<close>.
\<close>

theorem getMemories_count_zero_counterexample:
  "gm_count (example_listing\<lparr>gm_count := Some (Num 0)\<rparr>) = Some (Num 0)
   \<and> issued (snd (getMemories example_adapter (example_listing\<lparr>gm_count := Some (Num 0)\<rparr>))) =
       [Scroll ''collection''
          \<lparr>sc_limit = Num 100,
           sc_filter =
             \<lparr>must = [Match ''type'' (JStr ''facts''), Match ''roomId'' (JStr ''r1''),
                      Match ''unique'' (JStr ''true''),
                      InRange ''createdAt'' (Some (Num 100)) (Some (Num 200))]\<rparr>,
           sc_with_payload = True, sc_with_vector = True\<rparr>]"
  by (simp add: getMemories_def this_scroll_def num_or_def getMemories_filter_def
        example_listing_def example_adapter_def example_client_def truthy_str_def
        truthy_numo_def str_val_def Boolean_toString_def)

text \<open>
  C5, as the code has it. The filter of \<open>getMemories\<close> is a conjunction (\<open>must\<close>) of, in
  this order: \<open>type = tableName\<close>; \<open>roomId = roomId\<close>; \<open>unique = "true"\<close> when
  \<open>unique\<close> is \<open>true\<close>, and no condition on \<open>unique\<close> when it is \<open>false\<close> or not
  given; \<open>agentId = agentId\<close> when a non-empty \<open>agentId\<close> is given; and one range on
  \<open>createdAt\<close> when \<open>start\<close> or \<open>end\<close> is truthy (given, not \<open>0\<close>, not \<open>NaN\<close>),
  with \<open>gte = start\<close> only for a truthy \<open>start\<close> and \<open>lte = end\<close> only for a truthy
  \<open>end\<close>. This is the filter of the scroll that \<open>getMemories\<close> issues. For
  \<open>{tableName: "facts", roomId: "r1", unique: true, start: 100, end: 200}\<close> it is
  exactly the four conditions of the claim.
\<close>

theorem getMemories_filter_conditions:
  "must (getMemories_filter params) =
     [Match ''type'' (str_val (gm_tableName params)),
      Match ''roomId'' (str_val (gm_roomId params))]
     @ (if gm_unique params = Some True then [Match ''unique'' (JStr ''true'')] else [])
     @ (case gm_agentId params of
          None \<Rightarrow> []
        | Some a \<Rightarrow> if a \<noteq> [] then [Match ''agentId'' (JStr a)] else [])
     @ (if truthy_numo (gm_start params) \<or> truthy_numo (gm_end params)
        then [InRange ''createdAt''
                (if truthy_numo (gm_start params) then gm_start params else None)
                (if truthy_numo (gm_end params) then gm_end params else None)]
        else [])
   \<and> (truthy_str (gm_tableName params) \<and> truthy_str (gm_roomId params) \<longrightarrow>
        (\<exists>req. issued (snd (getMemories this params)) =
                 issued this @ [Scroll (collectionName this) req]
             \<and> sc_filter req = getMemories_filter params))
   \<and> must (getMemories_filter
        \<lparr>gm_roomId = Some ''r1'', gm_count = None, gm_unique = Some True,
         gm_tableName = Some ''facts'', gm_agentId = None,
         gm_start = Some (Num 100), gm_end = Some (Num 200)\<rparr>) =
       [Match ''type'' (JStr ''facts''), Match ''roomId'' (JStr ''r1''),
        Match ''unique'' (JStr ''true''),
        InRange ''createdAt'' (Some (Num 100)) (Some (Num 200))]"
proof (intro conjI impI)
  show "must (getMemories_filter params) =
     [Match ''type'' (str_val (gm_tableName params)),
      Match ''roomId'' (str_val (gm_roomId params))]
     @ (if gm_unique params = Some True then [Match ''unique'' (JStr ''true'')] else [])
     @ (case gm_agentId params of
          None \<Rightarrow> []
        | Some a \<Rightarrow> if a \<noteq> [] then [Match ''agentId'' (JStr a)] else [])
     @ (if truthy_numo (gm_start params) \<or> truthy_numo (gm_end params)
        then [InRange ''createdAt''
                (if truthy_numo (gm_start params) then gm_start params else None)
                (if truthy_numo (gm_end params) then gm_end params else None)]
        else [])"
    by (simp add: getMemories_filter_def Boolean_toString_def truthy_str_def str_val_def
          split: option.splits)
next
  assume "truthy_str (gm_tableName params) \<and> truthy_str (gm_roomId params)"
  then show "\<exists>req. issued (snd (getMemories this params)) =
                 issued this @ [Scroll (collectionName this) req]
             \<and> sc_filter req = getMemories_filter params"
    by (auto simp add: getMemories_def this_scroll_def split: sum.splits)
next
  show "must (getMemories_filter
        \<lparr>gm_roomId = Some ''r1'', gm_count = None, gm_unique = Some True,
         gm_tableName = Some ''facts'', gm_agentId = None,
         gm_start = Some (Num 100), gm_end = Some (Num 200)\<rparr>) =
       [Match ''type'' (JStr ''facts''), Match ''roomId'' (JStr ''r1''),
        Match ''unique'' (JStr ''true''),
        InRange ''createdAt'' (Some (Num 100)) (Some (Num 200))]"
    using example_listing_filter by (simp add: example_listing_def)
qed

theorem getMemories_filter_conditions_witness:
  "truthy_str (gm_tableName example_listing) \<and> truthy_str (gm_roomId example_listing)
   \<and> (\<exists>req. issued (snd (getMemories example_adapter example_listing)) =
              [Scroll ''collection'' req]
          \<and> must (sc_filter req) =
              [Match ''type'' (JStr ''facts''), Match ''roomId'' (JStr ''r1''),
               Match ''unique'' (JStr ''true''),
               InRange ''createdAt'' (Some (Num 100)) (Some (Num 200))])"
proof -
  have t: "truthy_str (gm_tableName example_listing) \<and> truthy_str (gm_roomId example_listing)"
    by (simp add: example_listing_def truthy_str_def)
  from getMemories_filter_conditions [of example_listing example_adapter] t
  have "\<exists>req. issued (snd (getMemories example_adapter example_listing)) =
                 issued example_adapter @ [Scroll (collectionName example_adapter) req]
             \<and> sc_filter req = getMemories_filter example_listing"
    by blast
  then obtain req where
    "issued (snd (getMemories example_adapter example_listing)) =
       issued example_adapter @ [Scroll (collectionName example_adapter) req]"
    "sc_filter req = getMemories_filter example_listing"
    by blast
  then have "issued (snd (getMemories example_adapter example_listing)) =
               [Scroll ''collection'' req]
      \<and> must (sc_filter req) =
              [Match ''type'' (JStr ''facts''), Match ''roomId'' (JStr ''r1''),
               Match ''unique'' (JStr ''true''),
               InRange ''createdAt'' (Some (Num 100)) (Some (Num 200))]"
    by (simp add: example_listing_filter) (simp add: example_adapter_def)
  then show ?thesis using t by blast
qed

text \<open>
  C5 as the specification states it fails: with \<open>unique: false\<close> supplied (and a start
  bound of \<open>0\<close>), the filter holds no condition on the uniqueness flag, and the range has
  no \<open>gte\<close>.
\<close>

theorem getMemories_filter_unique_false_counterexample:
  "must (getMemories_filter
        \<lparr>gm_roomId = Some ''r1'', gm_count = None, gm_unique = Some False,
         gm_tableName = Some ''facts'', gm_agentId = None,
         gm_start = Some (Num 0), gm_end = Some (Num 200)\<rparr>) =
       [Match ''type'' (JStr ''facts''), Match ''roomId'' (JStr ''r1''),
        InRange ''createdAt'' None (Some (Num 200))]"
  by (simp add: getMemories_filter_def truthy_str_def truthy_numo_def str_val_def)

section \<open>The uniqueness flag\<close>

lemma getMemories_filter_true:
  "gm_unique params = Some True \<Longrightarrow>
     Match ''unique'' v \<in> set (must (getMemories_filter params)) \<longleftrightarrow> v = JStr ''true''"
  by (auto simp add: getMemories_filter_def Boolean_toString_def)

lemma searchMemories_filter_true:
  "sm_unique params \<Longrightarrow>
     Match ''unique'' v \<in> set (must (searchMemories_filter params)) \<longleftrightarrow> v = JStr ''true''"
  by (auto simp add: searchMemories_filter_def Boolean_toString_def)

lemma getMemories_issues_filter:
  "truthy_str (gm_tableName params) \<and> truthy_str (gm_roomId params) \<Longrightarrow>
     \<exists>req. issued (snd (getMemories this params)) =
             issued this @ [Scroll (collectionName this) req]
         \<and> sc_filter req = getMemories_filter params"
  by (auto simp add: getMemories_def this_scroll_def split: sum.splits)

lemma searchMemories_issues_filter:
  "\<exists>req. issued (snd (searchMemories this params)) =
           issued this @ [Search (collectionName this) req]
       \<and> sr_filter req = Some (searchMemories_filter params)"
  by (auto simp add: searchMemories_def this_search_def split: sum.splits)

lemma createMemory_upsert_unique:
  assumes "Upsert c w pts \<in> set (issued (snd (createMemory pf now fresh this memory tableName unique)))"
    and "Upsert c w pts \<notin> set (issued this)"
    and "p \<in> set pts"
  shows "\<exists>b. map_of (pt_payload p) ''unique'' = Some (JBool b)"
  using assms
  by (auto simp add: createMemory_def searchMemoriesByEmbedding_def this_search_def
        this_upsert_def split: option.splits sum.splits prod.splits if_splits)

text \<open>
  C10. Every point that \<open>createMemory\<close> writes holds a boolean under the payload key
  \<open>unique\<close>. The filter of \<open>getMemories\<close> with \<open>unique = true\<close>, and that of
  \<open>searchMemories\<close> with \<open>unique = true\<close>, hold exactly one condition on \<open>unique\<close>: a
  match against the string \<open>"true"\<close>; these are the filters of the scroll and of the
  search that the two operations issue. So the value stored by \<open>createMemory\<close> is never
  the value such a filter matches against.
\<close>

theorem unique_stored_boolean_matched_string:
  assumes "Upsert c w pts \<in> set (issued (snd (createMemory pf now fresh this memory tableName unique)))"
    and "Upsert c w pts \<notin> set (issued this)"
    and "p \<in> set pts"
  shows "(\<exists>b. map_of (pt_payload p) ''unique'' = Some (JBool b))
     \<and> (\<forall>params. gm_unique params = Some True \<longrightarrow>
           Match ''unique'' (JStr ''true'') \<in> set (must (getMemories_filter params))
         \<and> (\<forall>v. Match ''unique'' v \<in> set (must (getMemories_filter params)) \<longrightarrow>
                 v = JStr ''true'' \<and> map_of (pt_payload p) ''unique'' \<noteq> Some v))
     \<and> (\<forall>params. sm_unique params \<longrightarrow>
           Match ''unique'' (JStr ''true'') \<in> set (must (searchMemories_filter params))
         \<and> (\<forall>v. Match ''unique'' v \<in> set (must (searchMemories_filter params)) \<longrightarrow>
                 v = JStr ''true'' \<and> map_of (pt_payload p) ''unique'' \<noteq> Some v))
     \<and> (\<forall>a params. truthy_str (gm_tableName params) \<and> truthy_str (gm_roomId params) \<longrightarrow>
           (\<exists>req. issued (snd (getMemories a params)) =
                    issued a @ [Scroll (collectionName a) req]
                \<and> sc_filter req = getMemories_filter params))
     \<and> (\<forall>a params.
           \<exists>req. issued (snd (searchMemories a params)) =
                   issued a @ [Search (collectionName a) req]
               \<and> sr_filter req = Some (searchMemories_filter params))"
proof -
  from createMemory_upsert_unique [OF assms]
  obtain b where b: "map_of (pt_payload p) ''unique'' = Some (JBool b)" by blast
  show ?thesis
    using b getMemories_issues_filter searchMemories_issues_filter
    by (simp add: getMemories_filter_true searchMemories_filter_true)
qed

lemma threshold_value: "literal_0_95 = Num (4278419646001971 / 2 ^ 52)"
  unfolding literal_0_95_def by code_simp

lemma example_threshold:
  "num_or (Some literal_0_95) (Num 0) = literal_0_95"
  "num_or (Some (Num 1)) (Num 10) = Num 1"
  unfolding threshold_value by (simp_all add: num_or_def)

lemma example_createMemory:
  "issued (snd (createMemory example_platform (Num 1700000000000) ''fresh'' example_adapter
                  example_memory ''facts'' unique)) =
     [example_dedup_search, Upsert ''collection'' True [example_written_point]]"
proof -
  have c: "cleanVector [Num 1, Num 2, Num 3] = [Num 1, Num 2, Num 3]" by code_simp
  show ?thesis
    by (simp add: createMemory_def searchMemoriesByEmbedding_def this_search_def this_upsert_def
          example_adapter_def example_client_def example_platform_def example_memory_def
          example_dedup_search_def example_written_point_def buildQdrantID_def
          searchMemoriesByEmbedding_filter_def truthy_str_def str_val_def c
          example_threshold)
qed

theorem unique_stored_boolean_matched_string_witness:
  "Upsert ''collection'' True [example_written_point]
     \<in> set (issued (snd (createMemory example_platform (Num 1700000000000) ''fresh''
                            example_adapter example_memory ''facts'' None)))
   \<and> Upsert ''collection'' True [example_written_point] \<notin> set (issued example_adapter)
   \<and> example_written_point \<in> set [example_written_point]
   \<and> map_of (pt_payload example_written_point) ''unique'' = Some (JBool True)
   \<and> gm_unique example_listing = Some True
   \<and> Match ''unique'' (JStr ''true'') \<in> set (must (getMemories_filter example_listing))
   \<and> map_of (pt_payload example_written_point) ''unique'' \<noteq> Some (JStr ''true'')"
proof -
  have a: "Upsert ''collection'' True [example_written_point]
     \<in> set (issued (snd (createMemory example_platform (Num 1700000000000) ''fresh''
                            example_adapter example_memory ''facts'' None)))"
    by (simp add: example_createMemory)
  have b: "Upsert ''collection'' True [example_written_point] \<notin> set (issued example_adapter)"
    by (simp add: example_adapter_def)
  have c: "example_written_point \<in> set [example_written_point]" by simp
  have u: "gm_unique example_listing = Some True" by (simp add: example_listing_def)
  have s: "map_of (pt_payload example_written_point) ''unique'' = Some (JBool True)"
    by (simp add: example_written_point_def)
  from unique_stored_boolean_matched_string [OF a b c] u
  have "Match ''unique'' (JStr ''true'') \<in> set (must (getMemories_filter example_listing))
      \<and> map_of (pt_payload example_written_point) ''unique'' \<noteq> Some (JStr ''true'')"
    by blast
  with a b c u s show ?thesis by blast
qed

section \<open>createMemory\<close>

lemma map_err_length: "map_err f xs = Inr ys \<Longrightarrow> length ys = length xs"
  by (induction xs arbitrary: ys) (auto split: sum.splits)

lemma searchMemoriesByEmbedding_ok:
  "vectorSize this = Num (of_nat (length embedding)) \<Longrightarrow>
     searchMemoriesByEmbedding pf this embedding params =
       ((case db_search (db this) (collectionName this)
                \<lparr>sr_vector = cleanVector embedding,
                 sr_limit = Some (num_or (se_count params) (Num 10)),
                 sr_score_threshold = Some (num_or (se_match_threshold params) (Num 0)),
                 sr_filter = Some (searchMemoriesByEmbedding_filter params),
                 sr_with_payload = Some True, sr_with_vector = Some True\<rparr> of
           Inl e \<Rightarrow> Inl e
         | Inr rs \<Rightarrow> map_err searchMemoriesByEmbedding_result rs),
        this\<lparr>issued := issued this @
          [Search (collectionName this)
             \<lparr>sr_vector = cleanVector embedding,
              sr_limit = Some (num_or (se_count params) (Num 10)),
              sr_score_threshold = Some (num_or (se_match_threshold params) (Num 0)),
              sr_filter = Some (searchMemoriesByEmbedding_filter params),
              sr_with_payload = Some True, sr_with_vector = Some True\<rparr>]\<rparr>)"
  by (simp add: searchMemoriesByEmbedding_def this_search_def split: sum.splits)

lemma createMemory_search_filter:
  "searchMemoriesByEmbedding_filter
     \<lparr>se_match_threshold = t, se_count = n, se_roomId = Some room, se_agentId = None,
      se_unique = None, se_tableName = tableName\<rparr> =
   \<lparr>must = [Match ''type'' (JStr tableName)]
            @ (if room \<noteq> [] then [Match ''roomId'' (JStr room)] else [])\<rparr>"
  by (simp add: searchMemoriesByEmbedding_filter_def truthy_str_def str_val_def)

text \<open>
  C3, as the code has it. For a memory that carries an embedding of length \<open>vectorSize\<close>,
  \<open>createMemory\<close> first issues a similarity search with the cleaned embedding, result
  limit \<open>1\<close>, score threshold \<open>0.95\<close> (the double \<open>4278419646001971 / 2^52\<close>) and a
  filter on the table name and (when it is not empty) the memory's room. When the search
  succeeds, the point is written next, and its stored uniqueness flag is the memory's own
  \<open>unique\<close> field when the memory has one, and otherwise whether the search found
  nothing. This holds for every \<open>unique\<close> argument: with an embedding, the argument of
  the caller is not consulted. When the search fails, its error is the error of the call
  and nothing is written; an embedding of another length gives the dimension error and
  no remote call. For a memory without an embedding no search is issued: the point is
  written with a vector of \<open>vectorSize\<close> zeros, and its flag is the memory's own \<open>unique\<close>
  field when it has one, otherwise the caller's \<open>unique\<close> argument, and \<open>true\<close> when
  that is absent too.
\<close>

theorem createMemory_search_decides_unique:
  fixes memory :: memory and this :: adapter and pf :: platform
    and embedding :: "jsnum list" and tableName fresh :: string and now :: jsnum
    and unique :: "bool option"
  defines "req \<equiv>
      \<lparr>sr_vector = cleanVector embedding, sr_limit = Some (Num 1),
       sr_score_threshold = Some (literal_0_95),
       sr_filter = Some \<lparr>must =
         [Match ''type'' (JStr tableName)]
         @ (if m_roomId memory \<noteq> [] then [Match ''roomId'' (JStr (m_roomId memory))] else [])\<rparr>,
       sr_with_payload = Some True, sr_with_vector = Some True\<rparr>"
    and "point \<equiv> \<lambda>vector flag.
      \<lparr>pt_id = v5 pf (case m_id memory of None \<Rightarrow> fresh | Some i \<Rightarrow> if i \<noteq> [] then i else fresh)
                 (qdrantV5UUIDNamespace this),
       pt_vector = vector,
       pt_payload =
         [(''id'', (case m_id memory of None \<Rightarrow> JUndefined | Some i \<Rightarrow> JStr i)),
          (''type'', JStr tableName),
          (''content'', m_content memory),
          (''userId'', JStr (m_userId memory)),
          (''roomId'', JStr (m_roomId memory)),
          (''agentId'', JStr (m_agentId memory)),
          (''unique'', JBool flag),
          (''createdAt'', JNum now)]\<rparr>"
  shows
    "(m_embedding memory = Some embedding \<and> vectorSize this = Num (of_nat (length embedding)) \<longrightarrow>
        (\<exists>rest. issued (snd (createMemory pf now fresh this memory tableName unique)) =
                 issued this @ Search (collectionName this) req # rest)
      \<and> (\<forall>rs ms.
            db_search (db this) (collectionName this) req = Inr rs
            \<and> map_err searchMemoriesByEmbedding_result rs = Inr ms \<longrightarrow>
            issued (snd (createMemory pf now fresh this memory tableName unique)) =
              issued this @
                [Search (collectionName this) req,
                 Upsert (collectionName this) True
                   [point embedding (case m_unique memory of Some u \<Rightarrow> u | None \<Rightarrow> rs = [])]])
      \<and> (\<forall>e. db_search (db this) (collectionName this) req = Inl e \<longrightarrow>
            createMemory pf now fresh this memory tableName unique =
              (Inl e, this\<lparr>issued := issued this @ [Search (collectionName this) req]\<rparr>)))
     \<and> (m_embedding memory = Some embedding \<and> vectorSize this \<noteq> Num (of_nat (length embedding)) \<longrightarrow>
          createMemory pf now fresh this memory tableName unique =
            (Inl (Error (''Invalid embedding dimension: expected ''
                          @ numToString pf (vectorSize this) @ '', got ''
                          @ numToString pf (Num (of_nat (length embedding))))), this))
     \<and> (m_embedding memory = None \<longrightarrow>
          (\<forall>zeros. new_Array_fill0 (vectorSize this) = Inr zeros \<longrightarrow>
             issued (snd (createMemory pf now fresh this memory tableName unique)) =
               issued this @
                 [Upsert (collectionName this) True
                    [point zeros (case m_unique memory of
                                    Some u \<Rightarrow> u
                                  | None \<Rightarrow> (case unique of Some u \<Rightarrow> u | None \<Rightarrow> True))]]))
     \<and> literal_0_95 = Num (4278419646001971 / 2 ^ 52)"
proof -
  let ?this' = "this\<lparr>issued := issued this @ [Search (collectionName this) req]\<rparr>"
  let ?cm = "createMemory pf now fresh this memory tableName unique"
  have pt: "\<lparr>pt_id =
                buildQdrantID pf t
                  (if truthy_str (m_id memory)
                   then (case m_id memory of Some i \<Rightarrow> i | None \<Rightarrow> fresh) else fresh),
              pt_vector = vector,
              pt_payload =
                [(''id'', str_val (m_id memory)),
                 (''type'', JStr tableName),
                 (''content'', m_content memory),
                 (''userId'', JStr (m_userId memory)),
                 (''roomId'', JStr (m_roomId memory)),
                 (''agentId'', JStr (m_agentId memory)),
                 (''unique'', JBool flag),
                 (''createdAt'', JNum now)]\<rparr> = point vector flag"
    if "qdrantV5UUIDNamespace t = qdrantV5UUIDNamespace this" for t vector flag
    using that
    by (cases "m_id memory") (simp_all add: point_def buildQdrantID_def truthy_str_def str_val_def)
  have sm: "searchMemoriesByEmbedding pf this embedding
              \<lparr>se_match_threshold = Some (literal_0_95), se_count = Some (Num 1),
               se_roomId = Some (m_roomId memory), se_agentId = None,
               se_unique = None, se_tableName = tableName\<rparr> =
            ((case db_search (db this) (collectionName this) req of
                Inl e \<Rightarrow> Inl e
              | Inr rs \<Rightarrow> map_err searchMemoriesByEmbedding_result rs), ?this')"
    if "vectorSize this = Num (of_nat (length embedding))"
    unfolding searchMemoriesByEmbedding_ok [OF that, of pf] createMemory_search_filter req_def
    by (simp add: example_threshold)
  have A: "(\<exists>rest. issued (snd ?cm) = issued this @ Search (collectionName this) req # rest)
      \<and> (\<forall>rs ms.
            db_search (db this) (collectionName this) req = Inr rs
            \<and> map_err searchMemoriesByEmbedding_result rs = Inr ms \<longrightarrow>
            issued (snd ?cm) =
              issued this @
                [Search (collectionName this) req,
                 Upsert (collectionName this) True
                   [point embedding (case m_unique memory of Some u \<Rightarrow> u | None \<Rightarrow> rs = [])]])
      \<and> (\<forall>e. db_search (db this) (collectionName this) req = Inl e \<longrightarrow> ?cm = (Inl e, ?this'))"
    if e: "m_embedding memory = Some embedding"
      and v: "vectorSize this = Num (of_nat (length embedding))"
  proof -
    have fail: "?cm = (Inl err, ?this')"
      if "db_search (db this) (collectionName this) req = Inl err" for err
      using that by (simp only: createMemory_def e option.case sm [OF v]) simp
    have fail2: "?cm = (Inl err, ?this')"
      if "db_search (db this) (collectionName this) req = Inr rs"
        "map_err searchMemoriesByEmbedding_result rs = Inl err" for rs err
      using that by (simp only: createMemory_def e option.case sm [OF v]) simp
    have ok: "?cm = this_upsert ?this' True
                 [point embedding (case m_unique memory of Some u \<Rightarrow> u | None \<Rightarrow> rs = [])]"
      if a: "db_search (db this) (collectionName this) req = Inr rs"
        "map_err searchMemoriesByEmbedding_result rs = Inr ms" for rs ms
    proof -
      have l: "(ms = []) = (rs = [])"
        using a map_err_length [of searchMemoriesByEmbedding_result rs ms] by auto
      have "?cm = this_upsert ?this' True
                 [\<lparr>pt_id =
                      buildQdrantID pf ?this'
                        (if truthy_str (m_id memory)
                         then (case m_id memory of Some i \<Rightarrow> i | None \<Rightarrow> fresh) else fresh),
                    pt_vector = embedding,
                    pt_payload =
                      [(''id'', str_val (m_id memory)),
                       (''type'', JStr tableName),
                       (''content'', m_content memory),
                       (''userId'', JStr (m_userId memory)),
                       (''roomId'', JStr (m_roomId memory)),
                       (''agentId'', JStr (m_agentId memory)),
                       (''unique'', JBool (case m_unique memory of Some u \<Rightarrow> u
                                           | None \<Rightarrow> length ms = 0)),
                       (''createdAt'', JNum now)]\<rparr>]"
        by (simp only: createMemory_def e option.case sm [OF v] a sum.case prod.case)
      also have "\<dots> = this_upsert ?this' True
                 [point embedding (case m_unique memory of Some u \<Rightarrow> u | None \<Rightarrow> rs = [])]"
        by (subst pt) (simp_all add: l cong: option.case_cong)
      finally show ?thesis .
    qed
    have first: "\<exists>rest. issued (snd ?cm) = issued this @ Search (collectionName this) req # rest"
    proof (cases "db_search (db this) (collectionName this) req")
      case (Inl err)
      from fail [OF this] show ?thesis by simp
    next
      case (Inr rs)
      show ?thesis
      proof (cases "map_err searchMemoriesByEmbedding_result rs")
        case (Inl err)
        from fail2 [OF Inr this] show ?thesis by simp
      next
        case r: (Inr ms)
        from ok [OF Inr r] show ?thesis by (simp add: this_upsert_def)
      qed
    qed
    show ?thesis
      using first fail ok by (auto simp add: this_upsert_def)
  qed
  have B: "?cm = (Inl (Error (''Invalid embedding dimension: expected ''
                          @ numToString pf (vectorSize this) @ '', got ''
                          @ numToString pf (Num (of_nat (length embedding))))), this)"
    if e: "m_embedding memory = Some embedding"
      and v: "vectorSize this \<noteq> Num (of_nat (length embedding))"
    using v
    by (simp only: createMemory_def e option.case)
       (simp add: searchMemoriesByEmbedding_def dimension_message_def)
  have C: "issued (snd ?cm) =
               issued this @
                 [Upsert (collectionName this) True
                    [point zeros (case m_unique memory of
                                    Some u \<Rightarrow> u
                                  | None \<Rightarrow> (case unique of Some u \<Rightarrow> u | None \<Rightarrow> True))]]"
    if e: "m_embedding memory = None" and z: "new_Array_fill0 (vectorSize this) = Inr zeros"
    for zeros
  proof -
    have "?cm = this_upsert this True
                 [\<lparr>pt_id =
                      buildQdrantID pf this
                        (if truthy_str (m_id memory)
                         then (case m_id memory of Some i \<Rightarrow> i | None \<Rightarrow> fresh) else fresh),
                    pt_vector = zeros,
                    pt_payload =
                      [(''id'', str_val (m_id memory)),
                       (''type'', JStr tableName),
                       (''content'', m_content memory),
                       (''userId'', JStr (m_userId memory)),
                       (''roomId'', JStr (m_roomId memory)),
                       (''agentId'', JStr (m_agentId memory)),
                       (''unique'', JBool (case m_unique memory of Some u \<Rightarrow> u
                                           | None \<Rightarrow> (case unique of Some u \<Rightarrow> u | None \<Rightarrow> True))),
                       (''createdAt'', JNum now)]\<rparr>]"
      by (simp only: createMemory_def e option.case z sum.case prod.case)
    then show ?thesis
      by (subst (asm) pt) (simp_all add: this_upsert_def)
  qed
  show ?thesis
    using A B C threshold_value by blast
qed

theorem createMemory_search_decides_unique_witness:
  "m_embedding example_memory = Some [Num 1, Num 2, Num 3]
   \<and> vectorSize example_adapter = Num (of_nat (length [Num 1, Num 2, Num 3]))
   \<and> issued (snd (createMemory example_platform (Num 1700000000000) ''fresh''
                    example_adapter example_memory ''facts'' None)) =
       [example_dedup_search, Upsert ''collection'' True [example_written_point]]
   \<and> map_of (pt_payload example_written_point) ''unique'' = Some (JBool True)
   \<and> m_embedding (example_memory\<lparr>m_embedding := None\<rparr>) = None
   \<and> new_Array_fill0 (vectorSize example_adapter) = Inr [Num 0, Num 0, Num 0]
   \<and> issued (snd (createMemory example_platform (Num 1700000000000) ''fresh''
                    example_adapter (example_memory\<lparr>m_embedding := None\<rparr>) ''facts''
                    (Some False))) =
       [Upsert ''collection'' True
          [example_written_point\<lparr>pt_vector := [Num 0, Num 0, Num 0],
             pt_payload := (pt_payload example_written_point)[6 := (''unique'', JBool False)]\<rparr>]]"
proof -
  have e: "m_embedding example_memory = Some [Num 1, Num 2, Num 3]"
    by (simp add: example_memory_def)
  have v: "vectorSize example_adapter = Num (of_nat (length [Num 1, Num 2, Num 3]))"
    by (simp add: example_adapter_def)
  have s: "map_of (pt_payload example_written_point) ''unique'' = Some (JBool True)"
    by (simp add: example_written_point_def)
  have n: "m_embedding (example_memory\<lparr>m_embedding := None\<rparr>) = None" by simp
  have z: "new_Array_fill0 (vectorSize example_adapter) = Inr [Num 0, Num 0, Num 0]"
    by (simp add: new_Array_fill0_def example_adapter_def numeral_3_eq_3)
  from createMemory_search_decides_unique
         [of "example_memory\<lparr>m_embedding := None\<rparr>" "[]" example_adapter example_platform
             "Num 1700000000000" "''fresh''" "''facts''" "Some False"] n z
  have w: "issued (snd (createMemory example_platform (Num 1700000000000) ''fresh''
                    example_adapter (example_memory\<lparr>m_embedding := None\<rparr>) ''facts''
                    (Some False))) =
       [Upsert ''collection'' True
          [example_written_point\<lparr>pt_vector := [Num 0, Num 0, Num 0],
             pt_payload := (pt_payload example_written_point)[6 := (''unique'', JBool False)]\<rparr>]]"
    by (simp add: example_memory_def example_adapter_def example_platform_def
          example_written_point_def)
  show ?thesis
    using e v s n z w example_createMemory [of None] by simp
qed

text \<open>
  C3 as the specification states it fails: the caller passes \<open>unique = false\<close> for a
  memory with an embedding and no \<open>unique\<close> field of its own; the search finds nothing,
  and the flag stored is \<open>true\<close>, not the caller's value.
\<close>

theorem createMemory_caller_unique_ignored_counterexample:
  "m_unique example_memory = None
   \<and> issued (snd (createMemory example_platform (Num 1700000000000) ''fresh''
                    example_adapter example_memory ''facts'' (Some False))) =
       [example_dedup_search, Upsert ''collection'' True [example_written_point]]
   \<and> map_of (pt_payload example_written_point) ''unique'' = Some (JBool True)"
  by (simp add: example_createMemory) (simp add: example_written_point_def example_memory_def)

section \<open>Knowledge round trip\<close>

text \<open>
  C4, as the code has it. \<open>createKnowledge\<close> writes one point for a knowledge record
  \<open>k\<close> with an embedding \<open>e\<close> of 32-bit floats (\<open>Float32Array.from(e)\<close> is \<open>e\<close>).
  Whenever the store answers the retrieval of \<open>getKnowledge\<close> with that point (its
  payload and its vector), \<open>getKnowledge\<close> returns one record: its agentId is
  \<open>k.agentId\<close>, unless the metadata marks the record shared, when it is the empty
  string; its text is the empty string, whatever \<open>k\<close>'s text is (the text is written
  under \<open>content.text\<close> and read from \<open>description\<close>), and \<open>k\<close>'s text stands under
  \<open>content.text\<close> of the record's metadata; and its embedding is \<open>e\<close>.
\<close>

theorem knowledge_read_back:
  assumes "k_embedding k = Some e"
    and "map (fround pf) e = e"
  shows "\<exists>p. issued (snd (createKnowledge pf now this k)) =
               issued this @ [Upsert (collectionName this) True [p]]
     \<and> (\<forall>reader params row.
           sp_payload row = JObj (pt_payload p) \<and> sp_vector row = Some (pt_vector p)
           \<and> db_retrieve (db reader) (collectionName reader)
                (case gk_id params of None \<Rightarrow> [] | Some i \<Rightarrow> if i \<noteq> [] then [i] else [])
               = Inr [row] \<longrightarrow>
           (\<exists>r. fst (getKnowledge pf reader params) = Inr [r]
               \<and> kr_agentId r =
                   (if truthy (prop_opt (js_or (k_metadata k) (JObj [])) ''isShared'')
                    then JStr [] else JStr (k_agentId k))
               \<and> kr_text r = []
               \<and> prop_opt (prop_opt (kr_metadata r) ''content'') ''text'' = JStr (k_text k)
               \<and> kr_embedding r = Some e))"
  using assms
  by (simp add: createKnowledge_def this_upsert_def getKnowledge_def this_retrieve_def
        getKnowledge_row_def js_String_def js_or_def Let_def)

theorem knowledge_read_back_witness:
  "k_embedding example_private_knowledge = Some [Num 1, Num 2, Num 3]
   \<and> map (fround example_platform) [Num 1, Num 2, Num 3] = [Num 1, Num 2, Num 3]
   \<and> issued (snd (createKnowledge example_platform (Num 1700000000000) example_adapter
                    example_private_knowledge)) =
       [Upsert ''collection'' True [example_private_point]]
   \<and> issued (snd (getKnowledge example_platform (example_reader example_private_point)
                    example_lookup)) = [Retrieve ''collection'' [''k1'']]
   \<and> fst (getKnowledge example_platform (example_reader example_private_point)
             example_lookup) =
       Inr [\<lparr>kr_id = ''<v5 k1>'', kr_agentId = JStr ''a1'', kr_text = [],
             kr_metadata = JObj (pt_payload example_private_point),
             kr_embedding = Some [Num 1, Num 2, Num 3],
             kr_createdAt = JNum (Num 1000), kr_similarity = None\<rparr>]"
proof -
  have e: "k_embedding example_private_knowledge = Some [Num 1, Num 2, Num 3]"
    by (simp add: example_private_knowledge_def)
  have f: "map (fround example_platform) [Num 1, Num 2, Num 3] = [Num 1, Num 2, Num 3]"
    by (simp add: example_platform_def)
  have w: "issued (snd (createKnowledge example_platform (Num 1700000000000) example_adapter
                    example_private_knowledge)) =
       [Upsert ''collection'' True [example_private_point]]"
    by (simp add: createKnowledge_def this_upsert_def buildQdrantID_def js_or_def num_or_def
          Let_def example_private_knowledge_def example_private_point_def
          example_adapter_def example_platform_def)
  have r: "issued (snd (getKnowledge example_platform (example_reader example_private_point)
                    example_lookup)) = [Retrieve ''collection'' [''k1'']]
   \<and> fst (getKnowledge example_platform (example_reader example_private_point)
             example_lookup) =
       Inr [\<lparr>kr_id = ''<v5 k1>'', kr_agentId = JStr ''a1'', kr_text = [],
             kr_metadata = JObj (pt_payload example_private_point),
             kr_embedding = Some [Num 1, Num 2, Num 3],
             kr_createdAt = JNum (Num 1000), kr_similarity = None\<rparr>]"
    by (simp add: getKnowledge_def this_retrieve_def getKnowledge_row_def as_stored_def
          id_toString_def js_String_def js_or_def example_reader_def example_lookup_def
          example_adapter_def example_client_def example_platform_def
          example_private_point_def)
  show ?thesis
    using e f w r
      knowledge_read_back [OF e f, of "Num 1700000000000" example_adapter]
    by simp
qed

text \<open>
  C4 as the specification states it fails: for the shared knowledge record \<open>k1\<close> of
  agent \<open>a1\<close>, the point written holds \<open>agentId: null\<close>, and when the store returns
  that point, \<open>getKnowledge\<close> gives the empty string as agentId, not \<open>a1\<close>.
\<close>

theorem knowledge_shared_agentId_counterexample:
  "k_agentId example_knowledge = ''a1''
   \<and> issued (snd (createKnowledge example_platform (Num 1700000000000) example_adapter
                    example_knowledge)) = [Upsert ''collection'' True [example_knowledge_point]]
   \<and> fst (getKnowledge example_platform (example_reader example_knowledge_point)
             example_lookup) =
       Inr [\<lparr>kr_id = ''<v5 k1>'', kr_agentId = JStr [], kr_text = [],
             kr_metadata = JObj (pt_payload example_knowledge_point),
             kr_embedding = Some [Num 1, Num 2, Num 3],
             kr_createdAt = JNum (Num 1000), kr_similarity = None\<rparr>]"
  by (simp add: createKnowledge_def this_upsert_def getKnowledge_def this_retrieve_def
        getKnowledge_row_def as_stored_def id_toString_def js_String_def
        buildQdrantID_def js_or_def num_or_def Let_def example_knowledge_def
        example_knowledge_point_def example_adapter_def example_platform_def
        example_reader_def example_lookup_def example_client_def)

section \<open>The content normalizer\<close>















end
